theory Spec2Isabelle
  imports Main
begin

section \<open>The \<open>train\<close> entry point of the CIFAR-10 container\<close>

text \<open>
  The container's \<open>train\<close> program is a Python script: module-level statements
  (path constants and a bootstrap block for a bare virtual machine), two helpers
  (\<open>_run\<close>, \<open>_hyperparameters_to_cmd_args\<close>) and a main block wrapped in
  \<open>try ... except Exception\<close>. Everything it does to the outside world goes through
  library calls (\<open>os\<close>, \<open>json\<close>, \<open>glob\<close>, \<open>subprocess\<close>, \<open>boto3\<close>). The
  embedding keeps the script's control flow and data; what each library call answers is
  read from an environment record, and every effect that took place is appended to a
  trace.
\<close>

subsection \<open>Python values and exceptions\<close>

text \<open>
  The values \<open>json.load\<close> can produce, and \<open>bytes\<close> for the captured standard error
  of the training process. A \<open>dict\<close> is the list of its items in iteration order; JSON
  object keys are always strings. A float is kept as mantissa and exponent; its value
  plays no role in the script.
\<close>

datatype pyval =
    PNone
  | PBool bool
  | PInt int
  | PFloat int int
  | PStr string
  | PBytes string
  | PList "pyval list"
  | PDict "(string \<times> pyval) list"

text \<open>An instance of a subclass of \<open>Exception\<close>: the class name and \<open>str(e)\<close>.\<close>

datatype exn = Exn (exn_class: string) (str: string)

fun type_name :: "pyval \<Rightarrow> string" where
  "type_name PNone = ''NoneType''"
| "type_name (PBool b) = ''bool''"
| "type_name (PInt i) = ''int''"
| "type_name (PFloat m e) = ''float''"
| "type_name (PStr s) = ''str''"
| "type_name (PBytes b) = ''bytes''"
| "type_name (PList xs) = ''list''"
| "type_name (PDict kvs) = ''dict''"

fun is_str :: "pyval \<Rightarrow> bool" where
  "is_str (PStr s) = True"
| "is_str v = False"

subsection \<open>\<open>os.path\<close> and string helpers\<close>

text \<open>
  \<open>posixpath.join\<close> for two components: an absolute second component replaces the
  first; otherwise the two are glued with exactly one separator.
\<close>

definition os_path_join :: "string \<Rightarrow> string \<Rightarrow> string" where
  "os_path_join a b =
     (if b \<noteq> [] \<and> hd b = CHR ''/'' then b
      else if a = [] \<or> last a = CHR ''/'' then a @ b
      else a @ ''/'' @ b)"

text \<open>\<open>s.split('/')[-1]\<close>: what follows the last slash (all of \<open>s\<close> when it has none).\<close>

definition split_last :: "string \<Rightarrow> string" where
  "split_last s = rev (takeWhile (\<lambda>c. c \<noteq> CHR ''/'') (rev s))"

text \<open>
  \<open>posixpath.split\<close>: the tail is what follows the last slash; the head is the rest,
  with trailing slashes removed unless it consists of slashes only.
\<close>

definition os_path_split :: "string \<Rightarrow> string \<times> string" where
  "os_path_split p =
     (let tail = split_last p;
          head = take (length p - length tail) p
      in (if head \<noteq> [] \<and> (\<exists>c \<in> set head. c \<noteq> CHR ''/'')
          then rev (dropWhile (\<lambda>c. c = CHR ''/'') (rev head)) else head,
          tail))"

subsection \<open>Module-level constants\<close>

definition prefix :: string where
  "prefix = ''/opt/ml/''"

definition input_path :: string where
  "input_path = os_path_join prefix ''input/data''"

definition output_path :: string where
  "output_path = os_path_join prefix ''output''"

definition model_path :: string where
  "model_path = os_path_join prefix ''model''"

definition param_path :: string where
  "param_path = os_path_join prefix ''input/config/hyperparameters.json''"

definition channel_name :: string where
  "channel_name = ''training''"

definition training_path :: string where
  "training_path = os_path_join input_path channel_name"

definition training_script :: string where
  "training_script = ''cifar10.py''"

definition default_params :: "pyval list" where
  "default_params = [PStr ''--model-dir'', PStr model_path]"

subsection \<open>\<open>_hyperparameters_to_cmd_args\<close>\<close>

text \<open>
  \<^verbatim>\<open>
  def _hyperparameters_to_cmd_args(hyperparameters):
      cmd_args_list = []
      for key, value in hyperparameters.items():
          cmd_args_list.append('--{}'.format(key))
          cmd_args_list.append(value)
      return cmd_args_list
  \<close>
  The loop over the items, with the list built so far as accumulator. Only a \<open>dict\<close>
  has \<open>items\<close>; any other JSON value raises \<open>AttributeError\<close>. (Isabelle names
  cannot start with an underscore, so the two helpers lose theirs.)
\<close>

fun cmd_args_loop :: "(string \<times> pyval) list \<Rightarrow> pyval list \<Rightarrow> pyval list" where
  "cmd_args_loop [] cmd_args_list = cmd_args_list"
| "cmd_args_loop ((key, value) # items) cmd_args_list =
     cmd_args_loop items (cmd_args_list @ [PStr (''--'' @ key)] @ [value])"

definition no_attribute :: "pyval \<Rightarrow> string \<Rightarrow> exn" where
  "no_attribute v a =
     Exn ''AttributeError''
       ([CHR 0x27] @ type_name v @ [CHR 0x27] @ '' object has no attribute ''
          @ [CHR 0x27] @ a @ [CHR 0x27])"

fun hyperparameters_to_cmd_args :: "pyval \<Rightarrow> exn + pyval list" where
  "hyperparameters_to_cmd_args (PDict items) = Inr (cmd_args_loop items [])"
| "hyperparameters_to_cmd_args v = Inl (no_attribute v ''items'')"

text \<open>
  \<^verbatim>\<open>train_cmd = [python_executable, training_script] + default_params + cmd_args\<close>
\<close>

definition train_cmd :: "pyval \<Rightarrow> pyval list \<Rightarrow> pyval list" where
  "train_cmd python_executable cmd_args =
     [python_executable, PStr training_script] @ default_params @ cmd_args"

subsection \<open>The environment, the effects and the program state\<close>

text \<open>
  What the library calls answer. Each field is the result of one call of the script, as
  a function of the call's arguments: \<open>None\<close> (or \<open>Inr\<close>) when the call returns,
  \<open>Some e\<close> (or \<open>Inl e\<close>) when it raises \<open>e\<close>.
  \<^item> \<open>isdir\<close>: \<open>os.path.isdir\<close>;
  \<^item> \<open>boto3_client\<close>: \<open>boto3.client('s3')\<close>;
  \<^item> \<open>load_json\<close>: \<open>open(path, 'r')\<close> followed by \<open>json.load\<close>;
  \<^item> \<open>mkdir\<close>: \<open>os.mkdir\<close>;
  \<^item> \<open>download_file\<close>, \<open>upload_file\<close>: the two methods of the S3 client;
  \<^item> \<open>sys_executable\<close>: the value of \<open>sys.executable\<close>;
  \<^item> \<open>spawn\<close>: starting the process and \<open>communicate()\<close>, giving the return code and
    the captured standard error;
  \<^item> \<open>listdir\<close>: \<open>os.listdir\<close>; \<open>glob_dirs\<close>: the directories matching a directory
    pattern with wildcards (the recursive step of \<open>glob\<close>);
  \<^item> \<open>write_file\<close>: \<open>open(path, 'w')\<close> followed by \<open>write\<close>;
  \<^item> \<open>format_exc\<close>: \<open>traceback.format_exc()\<close> while the exception is handled;
  \<^item> \<open>py_repr\<close>: Python's \<open>repr\<close>.
  Writing to the standard streams is taken to succeed, and \<open>os.system\<close> returns the
  command's exit status, which the script discards. What a call raises is an instance
  of \<open>Exception\<close>; signals such as \<open>KeyboardInterrupt\<close> are outside the model.
\<close>

record env =
  isdir :: "string \<Rightarrow> bool"
  boto3_client :: "exn option"
  load_json :: "string \<Rightarrow> exn + pyval"
  mkdir :: "string \<Rightarrow> exn option"
  download_file :: "pyval \<Rightarrow> string \<Rightarrow> string \<Rightarrow> exn option"
  sys_executable :: pyval
  spawn :: "pyval list \<Rightarrow> exn + int \<times> string"
  listdir :: "string \<Rightarrow> exn + string list"
  glob_dirs :: "string \<Rightarrow> string list"
  upload_file :: "string \<Rightarrow> pyval \<Rightarrow> string \<Rightarrow> exn option"
  write_file :: "string \<Rightarrow> string \<Rightarrow> exn option"
  format_exc :: "exn \<Rightarrow> string"
  py_repr :: "pyval \<Rightarrow> string"

text \<open>
  The effects of a run, in the order they happened. A call that raises leaves no event.
\<close>

datatype event =
    S3Client
  | ReadFile string
  | Mkdir string
  | Download pyval string string
  | System string
  | Spawn "pyval list"
  | Print string
  | PrintErr string
  | Upload string pyval string
  | WriteFile string string

text \<open>
  The module's global variables that change (\<open>ec2 = None\<close> at first; \<open>s3\<close> and
  \<open>s3keys\<close> are unbound until the bootstrap binds them) and the trace.
\<close>

record pstate =
  ec2 :: "bool option"
  s3 :: bool
  s3keys :: "pyval option"
  trace :: "event list"

definition init :: pstate where
  "init = \<lparr>ec2 = None, s3 = False, s3keys = None, trace = []\<rparr>"

text \<open>
  How a statement ends: normally, by an exception, or by \<open>sys.exit\<close> (\<open>SystemExit\<close>
  is not an \<open>Exception\<close>, so \<open>except Exception\<close> lets it through).
\<close>

datatype completion = Normal | Raised exn | Exited int

type_synonym step = "pstate \<Rightarrow> completion \<times> pstate"

definition skip :: step where
  "skip s = (Normal, s)"

definition emit :: "event \<Rightarrow> step" where
  "emit ev s = (Normal, s\<lparr>trace := trace s @ [ev]\<rparr>)"

definition raise :: "exn \<Rightarrow> step" where
  "raise e s = (Raised e, s)"

definition sys_exit :: "int \<Rightarrow> step" where
  "sys_exit n s = (Exited n, s)"

text \<open>A library call that either raises or has the effect \<open>ev\<close>.\<close>

definition call :: "exn option \<Rightarrow> event \<Rightarrow> step" where
  "call r ev = (case r of Some e \<Rightarrow> raise e | None \<Rightarrow> emit ev)"

text \<open>Statement sequencing: the second statement runs only when the first ends normally.\<close>

definition seq :: "step \<Rightarrow> step \<Rightarrow> step" where
  "seq f g s = (case f s of (Normal, s') \<Rightarrow> g s' | r \<Rightarrow> r)"

fun block :: "step list \<Rightarrow> step" where
  "block [] = skip"
| "block (f # fs) = seq f (block fs)"

text \<open>\<open>try: body except Exception as e: h\<close>.\<close>

definition try_except :: "step \<Rightarrow> (exn \<Rightarrow> step) \<Rightarrow> step" where
  "try_except body h s = (case body s of (Raised e, s') \<Rightarrow> h e s' | r \<Rightarrow> r)"

subsection \<open>Expressions that can raise\<close>

text \<open>
  \<open>str(v)\<close>, also what an f-string and \<open>'{}'.format\<close> insert: a string as it is, any
  other value as its \<open>repr\<close>.
\<close>

definition py_str :: "env \<Rightarrow> pyval \<Rightarrow> string" where
  "py_str env v = (case v of PStr s \<Rightarrow> s | _ \<Rightarrow> py_repr env v)"

text \<open>\<open>v[k]\<close> for a string \<open>k\<close>: only a \<open>dict\<close> can be indexed by a string.\<close>

fun subscript :: "env \<Rightarrow> pyval \<Rightarrow> string \<Rightarrow> exn + pyval" where
  "subscript env (PDict kvs) k =
     (case map_of kvs k of
        Some v \<Rightarrow> Inr v
      | None \<Rightarrow> Inl (Exn ''KeyError'' (py_repr env (PStr k))))"
| "subscript env (PStr s) k = Inl (Exn ''TypeError'' ''string indices must be integers'')"
| "subscript env (PBytes b) k =
     Inl (Exn ''TypeError'' ''byte indices must be integers or slices, not str'')"
| "subscript env (PList xs) k =
     Inl (Exn ''TypeError'' ''list indices must be integers or slices, not str'')"
| "subscript env v k =
     Inl (Exn ''TypeError''
       ([CHR 0x27] @ type_name v @ [CHR 0x27] @ '' object is not subscriptable''))"

text \<open>\<open>xs[0]\<close> on a list.\<close>

fun first :: "'a list \<Rightarrow> exn + 'a" where
  "first [] = Inl (Exn ''IndexError'' ''list index out of range'')"
| "first (x # xs) = Inr x"

definition name_error :: "string \<Rightarrow> exn" where
  "name_error n =
     Exn ''NameError'' (''name '' @ [CHR 0x27] @ n @ [CHR 0x27] @ '' is not defined'')"

subsection \<open>The bootstrap block\<close>

text \<open>
  \<^verbatim>\<open>
  ec2 = None
  if not os.path.isdir('/opt/ml/input'):
      s3 = boto3.client('s3')
      with open('s3keys.json','r') as f:
          s3keys = json.load(f)
      os.mkdir('/opt/ml/output')
      os.mkdir('/opt/ml/input')
      os.mkdir('/opt/ml/model')
      os.mkdir('/opt/ml/input/config')
      os.mkdir('/opt/ml/input/data')
      os.mkdir('/opt/ml/input/data/training')
      s3.download_file(s3keys['bucket'], f"{s3keys['datakey']}/eval.tfrecords",
                       '/opt/ml/input/data/training/eval.tfrecords')
      s3.download_file(... train.tfrecords ...)
      s3.download_file(... validation.tfrecords ...)
      os.system('mv /opt/ml/code/hyperparameters.json /opt/ml/input/config')
      ec2 = True
  \<close>
  The three download statements differ in the file name only; \<open>download env name\<close> is
  one of them. Python looks up \<open>s3\<close>, then evaluates the arguments left to right, then
  calls.
\<close>

definition bind_s3 :: "env \<Rightarrow> step" where
  "bind_s3 env s =
     (case boto3_client env of
        Some e \<Rightarrow> (Raised e, s)
      | None \<Rightarrow> (Normal, s\<lparr>s3 := True, trace := trace s @ [S3Client]\<rparr>))"

definition bind_s3keys :: "env \<Rightarrow> step" where
  "bind_s3keys env s =
     (case load_json env ''s3keys.json'' of
        Inl e \<Rightarrow> (Raised e, s)
      | Inr v \<Rightarrow> (Normal, s\<lparr>s3keys := Some v, trace := trace s @ [ReadFile ''s3keys.json'']\<rparr>))"

definition do_mkdir :: "env \<Rightarrow> string \<Rightarrow> step" where
  "do_mkdir env p = call (mkdir env p) (Mkdir p)"

definition download :: "env \<Rightarrow> string \<Rightarrow> step" where
  "download env name s =
     (if \<not> s3 s then raise (name_error ''s3'') s
      else case s3keys s of
        None \<Rightarrow> raise (name_error ''s3keys'') s
      | Some keys \<Rightarrow>
          (case subscript env keys ''bucket'' of
             Inl e \<Rightarrow> raise e s
           | Inr bucket \<Rightarrow>
               (case subscript env keys ''datakey'' of
                  Inl e \<Rightarrow> raise e s
                | Inr datakey \<Rightarrow>
                    (let key = py_str env datakey @ ''/'' @ name;
                         dest = ''/opt/ml/input/data/training/'' @ name
                     in call (download_file env bucket key dest)
                          (Download bucket key dest) s))))"

definition set_ec2 :: step where
  "set_ec2 s = (Normal, s\<lparr>ec2 := Some True\<rparr>)"

definition bootstrap :: "env \<Rightarrow> step" where
  "bootstrap env =
     (if \<not> isdir env ''/opt/ml/input'' then
        block
          [bind_s3 env,
           bind_s3keys env,
           do_mkdir env ''/opt/ml/output'',
           do_mkdir env ''/opt/ml/input'',
           do_mkdir env ''/opt/ml/model'',
           do_mkdir env ''/opt/ml/input/config'',
           do_mkdir env ''/opt/ml/input/data'',
           do_mkdir env ''/opt/ml/input/data/training'',
           download env ''eval.tfrecords'',
           download env ''train.tfrecords'',
           download env ''validation.tfrecords'',
           emit (System ''mv /opt/ml/code/hyperparameters.json /opt/ml/input/config''),
           set_ec2]
      else skip)"

subsection \<open>\<open>_run\<close>\<close>

text \<open>
  \<^verbatim>\<open>
  def _run(cmd):
      process = subprocess.Popen(cmd, stdout=subprocess.PIPE, stderr=subprocess.PIPE,
                                 env=os.environ)
      stdout, stderr = process.communicate()
      return_code = process.poll()
      if return_code:
          error_msg = 'Return Code: {}, CMD: {}, Err: {}'.format(return_code, cmd, stderr)
          raise Exception(error_msg)
  \<close>
  \<open>Popen\<close> converts the arguments to file-system strings before it starts anything:
  an argument that is no \<open>str\<close>, \<open>bytes\<close> or path object raises \<open>TypeError\<close>, one
  with an embedded null character raises \<open>ValueError\<close>, and the first offending
  argument decides. Only then is the process started, which the environment answers.
\<close>

fun bad_arg :: "pyval \<Rightarrow> exn option" where
  "bad_arg (PStr s) =
     (if CHR 0x00 \<in> set s then Some (Exn ''ValueError'' ''embedded null byte'') else None)"
| "bad_arg (PBytes b) =
     (if CHR 0x00 \<in> set b then Some (Exn ''ValueError'' ''embedded null byte'') else None)"
| "bad_arg v =
     Some (Exn ''TypeError''
       (''expected str, bytes or os.PathLike object, not '' @ type_name v))"

fun first_bad_arg :: "pyval list \<Rightarrow> exn option" where
  "first_bad_arg [] = None"
| "first_bad_arg (v # vs) = (case bad_arg v of Some e \<Rightarrow> Some e | None \<Rightarrow> first_bad_arg vs)"

definition Popen :: "env \<Rightarrow> pyval list \<Rightarrow> exn + int \<times> string" where
  "Popen env cmd =
     (if cmd = [] then Inl (Exn ''IndexError'' ''list index out of range'')
      else case first_bad_arg cmd of
        Some e \<Rightarrow> Inl e
      | None \<Rightarrow> spawn env cmd)"

definition error_msg :: "env \<Rightarrow> int \<Rightarrow> pyval list \<Rightarrow> string \<Rightarrow> string" where
  "error_msg env return_code cmd stderr =
     ''Return Code: '' @ py_str env (PInt return_code) @ '', CMD: '' @ py_str env (PList cmd)
       @ '', Err: '' @ py_str env (PBytes stderr)"

definition run :: "env \<Rightarrow> pyval list \<Rightarrow> step" where
  "run env cmd s =
     (case Popen env cmd of
        Inl e \<Rightarrow> raise e s
      | Inr (return_code, stderr) \<Rightarrow>
          seq (emit (Spawn cmd))
            (if return_code \<noteq> 0
             then raise (Exn ''Exception'' (error_msg env return_code cmd stderr))
             else skip) s)"

subsection \<open>\<open>glob\<close>\<close>

text \<open>
  \<open>glob.glob\<close> for a pattern whose last component has a wildcard, which is how the
  script calls it (\<open>.../*\<close> and \<open>.../*.pb\<close>): the directory part is taken literally
  unless it has wildcards itself; the names in each directory are filtered by the last
  component, names starting with a dot are left out, and each match is joined to its
  directory. A directory that cannot be listed has no matches. \<open>fnmatchcase\<close> knows
  \<open>*\<close>, \<open>?\<close> and literal characters.
\<close>

definition has_magic :: "string \<Rightarrow> bool" where
  "has_magic s = list_ex (\<lambda>c. c = CHR ''*'' \<or> c = CHR ''?'' \<or> c = CHR ''['') s"

definition ishidden :: "string \<Rightarrow> bool" where
  "ishidden path = (path \<noteq> [] \<and> hd path = CHR ''.'')"

fun fnmatchcase :: "string \<Rightarrow> string \<Rightarrow> bool" where
  "fnmatchcase [] [] = True"
| "fnmatchcase (c # cs) [] = False"
| "fnmatchcase [] (p # ps) = (p = CHR ''*'' \<and> fnmatchcase [] ps)"
| "fnmatchcase (c # cs) (p # ps) =
     (if p = CHR ''*'' then fnmatchcase (c # cs) ps \<or> fnmatchcase cs (p # ps)
      else if p = CHR ''?'' then fnmatchcase cs ps
      else c = p \<and> fnmatchcase cs ps)"

definition iterdir :: "env \<Rightarrow> string \<Rightarrow> string list" where
  "iterdir env dirname = (case listdir env dirname of Inl e \<Rightarrow> [] | Inr names \<Rightarrow> names)"

definition glob1 :: "env \<Rightarrow> string \<Rightarrow> string \<Rightarrow> string list" where
  "glob1 env dirname pattern =
     (let names = iterdir env dirname;
          names = (if \<not> ishidden pattern then filter (\<lambda>x. \<not> ishidden x) names else names)
      in filter (\<lambda>n. fnmatchcase n pattern) names)"

definition glob :: "env \<Rightarrow> string \<Rightarrow> string list" where
  "glob env pathname =
     (let (dirname, basename) = os_path_split pathname;
          dirs = (if dirname \<noteq> pathname \<and> has_magic dirname
                  then glob_dirs env dirname else [dirname])
      in concat (map (\<lambda>d. map (os_path_join d) (glob1 env d basename)) dirs))"

subsection \<open>The upload block\<close>

text \<open>
  \<^verbatim>\<open>
  files = glob('/opt/ml/model/*')
  for file in files:
      print(file)
      if file not in ['/opt/ml/model/eval','/opt/ml/model/export']:
          s3.upload_file(os.path.join(model_path, file), s3keys['bucket'],
                         f"cifar_results/{file.split('/')[-1]}")
      elif file=='/opt/ml/model/export':
          dir = os.listdir('/opt/ml/model/export/Servo')[0]
          files = glob(f'/opt/ml/model/export/Servo/{dir}/*.pb')
          print(files)
          s3.upload_file(files[0], s3keys['bucket'],
                         f"cifar_results/{files[0].split('/')[-1]}")
  \<close>
  The \<open>for\<close> loop iterates over the list the first \<open>glob\<close> returned; rebinding
  \<open>files\<close> inside the loop does not change what is iterated.
\<close>

definition upload :: "env \<Rightarrow> string \<Rightarrow> string \<Rightarrow> step" where
  "upload env filename key s =
     (if \<not> s3 s then raise (name_error ''s3'') s
      else case s3keys s of
        None \<Rightarrow> raise (name_error ''s3keys'') s
      | Some keys \<Rightarrow>
          (case subscript env keys ''bucket'' of
             Inl e \<Rightarrow> raise e s
           | Inr bucket \<Rightarrow>
               call (upload_file env filename bucket key) (Upload filename bucket key) s))"

definition export_branch :: "env \<Rightarrow> step" where
  "export_branch env s =
     (case listdir env ''/opt/ml/model/export/Servo'' of
        Inl e \<Rightarrow> raise e s
      | Inr names \<Rightarrow>
          (case first names of
             Inl e \<Rightarrow> raise e s
           | Inr dir \<Rightarrow>
               (let files = glob env (''/opt/ml/model/export/Servo/'' @ dir @ ''/*.pb'')
                in seq (emit (Print (py_str env (PList (map PStr files)))))
                     (\<lambda>s. if \<not> s3 s then raise (name_error ''s3'') s
                          else case first files of
                            Inl e \<Rightarrow> raise e s
                          | Inr f \<Rightarrow> upload env f (''cifar_results/'' @ split_last f) s) s)))"

definition upload_entry :: "env \<Rightarrow> string \<Rightarrow> step" where
  "upload_entry env file =
     seq (emit (Print file))
       (if file \<notin> set [''/opt/ml/model/eval'', ''/opt/ml/model/export'']
        then upload env (os_path_join model_path file) (''cifar_results/'' @ split_last file)
        else if file = ''/opt/ml/model/export'' then export_branch env
        else skip)"

fun upload_loop :: "env \<Rightarrow> string list \<Rightarrow> step" where
  "upload_loop env [] = skip"
| "upload_loop env (file # files) = seq (upload_entry env file) (upload_loop env files)"

definition upload_block :: "env \<Rightarrow> step" where
  "upload_block env s =
     (if ec2 s = Some True then upload_loop env (glob env ''/opt/ml/model/*'') s else skip s)"

subsection \<open>The main block\<close>

text \<open>
  \<^verbatim>\<open>
  if __name__ == '__main__':
      try:
          with open(param_path, 'r') as tc:
              training_params = json.load(tc)
          python_executable = sys.executable
          cmd_args = _hyperparameters_to_cmd_args(training_params)
          train_cmd = [python_executable, training_script] + default_params + cmd_args
          _run(train_cmd)
          print('Training complete.')
          if ec2:
              ... the upload block ...
          sys.exit(0)
      except Exception as e:
          trc = traceback.format_exc()
          with open(os.path.join(output_path, 'failure'), 'w') as s:
              s.write('Exception during training: ' + str(e) + '\n' + trc)
          print('Exception during training: ' + str(e) + '\n' + trc, file=sys.stderr)
          sys.exit(255)
  \<close>
  The file is run as a program, so the main block always runs after the module-level
  statements.
\<close>

definition main_body :: "env \<Rightarrow> step" where
  "main_body env s =
     (case load_json env param_path of
        Inl e \<Rightarrow> raise e s
      | Inr training_params \<Rightarrow>
          (let s1 = s\<lparr>trace := trace s @ [ReadFile param_path]\<rparr>;
               python_executable = sys_executable env
           in case hyperparameters_to_cmd_args training_params of
                Inl e \<Rightarrow> raise e s1
              | Inr cmd_args \<Rightarrow>
                  block
                    [run env (train_cmd python_executable cmd_args),
                     emit (Print ''Training complete.''),
                     upload_block env,
                     sys_exit 0] s1))"

definition failure_text :: "env \<Rightarrow> exn \<Rightarrow> string" where
  "failure_text env e =
     ''Exception during training: '' @ str e @ [CHR 0x0A] @ format_exc env e"

definition handler :: "env \<Rightarrow> exn \<Rightarrow> step" where
  "handler env e =
     block
       [call (write_file env (os_path_join output_path ''failure'') (failure_text env e))
          (WriteFile (os_path_join output_path ''failure'') (failure_text env e)),
        emit (PrintErr (failure_text env e)),
        sys_exit 255]"

definition script :: "env \<Rightarrow> step" where
  "script env = seq (bootstrap env) (try_except (main_body env) (handler env))"

text \<open>
  A run starts from the initial globals. The process exit status is 0 when the module
  runs to its end, the argument of \<open>sys.exit\<close>, and 1 when an exception is not caught.
\<close>

definition train :: "env \<Rightarrow> completion \<times> pstate" where
  "train env = script env init"

definition effects :: "env \<Rightarrow> event list" where
  "effects env = trace (snd (train env))"

fun status_of :: "completion \<Rightarrow> int" where
  "status_of Normal = 0"
| "status_of (Raised e) = 1"
| "status_of (Exited n) = n"

definition exit_status :: "env \<Rightarrow> int" where
  "exit_status env = status_of (fst (train env))"

section \<open>The demonstration notebook\<close>

text \<open>
  The notebook is a straight-line program: its code cells, run from top to bottom in one
  Python namespace. A cell is a list of statements. The embedding keeps, for every
  statement, the variables it reads, the variable it binds and the call it makes to the
  platform (or to the shell); a statement that reads an unbound variable raises
  \<open>NameError\<close>, as in Python. Values are kept as far as the calls depend on them: string
  constants, an estimator with its \<open>train_instance_type\<close>, a predictor with the name
  of its endpoint, the location \<open>upload_data\<close> returns.
\<close>

datatype nval =
    VStr string
  | VEstimator string
  | VPredictor string
  | VUploaded
  | VObject

datatype api_call =
    ShellCell string
  | GetExecutionRole
  | DefaultBucket
  | UploadData
  | GetCallerIdentity
  | Fit string nval
  | Deploy string string
  | Predict string
  | DeleteEndpoint string

datatype arg = Lit string | Var string

datatype stmt =
    Shell string
  | Import "string list"
  | SetStr string string
  | SetObject string "string list"
  | SetAttr string "string list"
  | PrintVars "string list"
  | CallGetExecutionRole string
  | CallDefaultBucket string string
  | CallUploadData string string "string list"
  | CallGetCallerIdentity string string
  | NewEstimator string string "string list"
  | CallFit string arg
  | CallDeploy string string string string
  | CallPredict string string
  | CallDeleteEndpoint string

datatype nerror = NameError string | AttributeError string | TypeError string

record nstate =
  vars :: "string \<rightharpoonup> nval"
  calls :: "api_call list"

definition fresh :: nstate where
  "fresh = \<lparr>vars = Map.empty, calls = []\<rparr>"

fun unbound :: "nstate \<Rightarrow> string list \<Rightarrow> nerror option" where
  "unbound st [] = None"
| "unbound st (x # xs) = (case vars st x of None \<Rightarrow> Some (NameError x) | Some v \<Rightarrow> unbound st xs)"

definition bind_var :: "string \<Rightarrow> nval \<Rightarrow> nstate \<Rightarrow> nstate" where
  "bind_var x v st = st\<lparr>vars := (vars st)(x \<mapsto> v)\<rparr>"

definition called :: "api_call \<Rightarrow> nstate \<Rightarrow> nstate" where
  "called c st = st\<lparr>calls := calls st @ [c]\<rparr>"

definition reading :: "string list \<Rightarrow> nstate \<Rightarrow> nstate \<Rightarrow> nerror + nstate" where
  "reading xs st st' = (case unbound st xs of Some e \<Rightarrow> Inl e | None \<Rightarrow> Inr st')"

fun exec_stmt :: "stmt \<Rightarrow> nstate \<Rightarrow> nerror + nstate" where
  "exec_stmt (Shell c) st = Inr (called (ShellCell c) st)"
| "exec_stmt (Import names) st = Inr (fold (\<lambda>n. bind_var n VObject) names st)"
| "exec_stmt (SetStr x s) st = Inr (bind_var x (VStr s) st)"
| "exec_stmt (SetObject x rs) st = reading rs st (bind_var x VObject st)"
| "exec_stmt (SetAttr x rs) st = reading (x # rs) st st"
| "exec_stmt (PrintVars rs) st = reading rs st st"
| "exec_stmt (CallGetExecutionRole x) st =
     reading [''get_execution_role''] st (bind_var x VObject (called GetExecutionRole st))"
| "exec_stmt (CallDefaultBucket x sess) st =
     reading [sess] st (bind_var x VObject (called DefaultBucket st))"
| "exec_stmt (CallUploadData x sess rs) st =
     reading (sess # rs) st (bind_var x VUploaded (called UploadData st))"
| "exec_stmt (CallGetCallerIdentity x client) st =
     reading [client] st (bind_var x VObject (called GetCallerIdentity st))"
| "exec_stmt (NewEstimator x itype rs) st =
     (case unbound st (''Estimator'' # rs) of
        Some e \<Rightarrow> Inl e
      | None \<Rightarrow>
          (case vars st itype of
             None \<Rightarrow> Inl (NameError itype)
           | Some (VStr t) \<Rightarrow> Inr (bind_var x (VEstimator t) st)
           | Some v \<Rightarrow> Inl (TypeError itype)))"
| "exec_stmt (CallFit est a) st =
     (case vars st est of
        None \<Rightarrow> Inl (NameError est)
      | Some (VEstimator t) \<Rightarrow>
          (case a of
             Lit s \<Rightarrow> Inr (called (Fit t (VStr s)) st)
           | Var y \<Rightarrow>
               (case vars st y of
                  None \<Rightarrow> Inl (NameError y)
                | Some v \<Rightarrow> Inr (called (Fit t v) st)))
      | Some v \<Rightarrow> Inl (AttributeError ''fit''))"
| "exec_stmt (CallDeploy x est dtype name) st =
     (case vars st est of
        None \<Rightarrow> Inl (NameError est)
      | Some (VEstimator t) \<Rightarrow>
          (case vars st dtype of
             None \<Rightarrow> Inl (NameError dtype)
           | Some (VStr d) \<Rightarrow> Inr (bind_var x (VPredictor name) (called (Deploy d name) st))
           | Some v \<Rightarrow> Inl (TypeError dtype))
      | Some v \<Rightarrow> Inl (AttributeError ''deploy''))"
| "exec_stmt (CallPredict p d) st =
     (case vars st p of
        None \<Rightarrow> Inl (NameError p)
      | Some (VPredictor name) \<Rightarrow> reading [d] st (called (Predict name) st)
      | Some v \<Rightarrow> Inl (AttributeError ''predict''))"
| "exec_stmt (CallDeleteEndpoint p) st =
     (case vars st p of
        None \<Rightarrow> Inl (NameError p)
      | Some (VPredictor name) \<Rightarrow> Inr (called (DeleteEndpoint name) st)
      | Some v \<Rightarrow> Inl (AttributeError ''delete_endpoint''))"

fun exec_stmts :: "stmt list \<Rightarrow> nstate \<Rightarrow> nerror + nstate" where
  "exec_stmts [] st = Inr st"
| "exec_stmts (c # cs) st = (case exec_stmt c st of Inl e \<Rightarrow> Inl e | Inr st' \<Rightarrow> exec_stmts cs st')"

text \<open>The code cells of the notebook, in document order.\<close>

definition notebook :: "stmt list list" where
  "notebook =
     [[Shell ''cat container/Dockerfile''],
      [Shell ''%%sh: aws ecr describe-repositories, create-repository, get-login; docker build, tag, push''],
      [Shell ''python utils/generate_cifar10_tfrecords.py --data-dir=/tmp/cifar-10-data''],
      [Shell ''ls /tmp/cifar-10-data''],
      [Import [''get_execution_role''],
       CallGetExecutionRole ''role''],
      [Shell ''/bin/bash ./utils/setup.sh''],
      [Import [''Estimator''],
       SetObject ''hyperparameters'' [],
       SetStr ''instance_type'' ''local'',
       NewEstimator ''estimator'' ''instance_type'' [''role'', ''hyperparameters''],
       CallFit ''estimator'' (Lit ''file:///tmp/cifar-10-data'')],
      [Shell ''pip install opencv-python''],
      [Import [''sage''],
       SetObject ''sess'' [''sage''],
       CallDefaultBucket ''bucket'' ''sess'',
       SetStr ''prefix'' ''cifar-data''],
      [SetStr ''WORK_DIRECTORY'' ''/tmp/cifar-10-data'',
       CallUploadData ''data_location'' ''sess'' [''WORK_DIRECTORY'', ''bucket'', ''prefix'']],
      [Import [''boto3''],
       SetObject ''client'' [''boto3''],
       CallGetCallerIdentity ''account'' ''client'',
       SetObject ''my_session'' [''boto3''],
       SetObject ''region'' [''my_session''],
       SetStr ''algorithm_name'' ''v1-sagemaker-ngc-tf21911-example'',
       SetObject ''ecr_image'' [''account'', ''region'', ''algorithm_name''],
       PrintVars [''ecr_image'']],
      [Import [''Estimator''],
       SetObject ''hyperparameters'' [],
       SetStr ''instance_type'' ''ml.p3.8xlarge'',
       SetStr ''deploy_type'' ''ml.g4dn.2xlarge'',
       NewEstimator ''estimator'' ''instance_type''
         [''role'', ''ecr_image'', ''hyperparameters'', ''bucket''],
       CallFit ''estimator'' (Var ''data_location'')],
      [SetStr ''deploy_type'' ''ml.g4dn.2xlarge'',
       CallDeploy ''predictor'' ''estimator'' ''deploy_type'' ''tf-byoc-end''],
      [Import [''cv2''],
       Import [''numpy''],
       Import [''json_serializer'', ''json_deserializer'']],
      [SetObject ''image'' [''cv2''],
       SetObject ''image'' [''cv2'', ''image''],
       SetObject ''data'' [''numpy'', ''image''],
       SetAttr ''predictor'' [],
       SetAttr ''predictor'' [],
       SetAttr ''predictor'' [''json_serializer''],
       SetAttr ''predictor'' [''json_deserializer''],
       CallPredict ''predictor'' ''data''],
      [CallDeleteEndpoint ''predictor'']]"

definition run_all :: "nerror + nstate" where
  "run_all = exec_stmts (concat notebook) fresh"

text \<open>
  The calls the claim is about: those that act on the managed platform's training data,
  training jobs and endpoints. A \<open>fit\<close> or \<open>deploy\<close> with instance type \<open>local\<close> runs
  the container on the notebook's own machine.
\<close>

fun platform_call :: "api_call \<Rightarrow> bool" where
  "platform_call UploadData = True"
| "platform_call (Fit t v) = (t \<noteq> ''local'')"
| "platform_call (Deploy t name) = (t \<noteq> ''local'')"
| "platform_call (Predict name) = True"
| "platform_call (DeleteEndpoint name) = True"
| "platform_call c = False"

text \<open>
  No endpoint is deleted before a prediction was made against it: scanning the calls with
  the endpoints predicted against so far.
\<close>

fun predicted_before_delete :: "api_call list \<Rightarrow> string list \<Rightarrow> bool" where
  "predicted_before_delete [] seen = True"
| "predicted_before_delete (Predict name # cs) seen = predicted_before_delete cs (name # seen)"
| "predicted_before_delete (DeleteEndpoint name # cs) seen =
     (name \<in> set seen \<and> predicted_before_delete cs seen)"
| "predicted_before_delete (c # cs) seen = predicted_before_delete cs seen"

section \<open>Predicates on runs\<close>

subsection \<open>Kinds of events\<close>

fun is_WriteFile :: "event \<Rightarrow> bool" where
  "is_WriteFile (WriteFile p t) = True"
| "is_WriteFile ev = False"

fun is_Upload :: "event \<Rightarrow> bool" where
  "is_Upload (Upload f b k) = True"
| "is_Upload ev = False"

fun is_s3_event :: "event \<Rightarrow> bool" where
  "is_s3_event S3Client = True"
| "is_s3_event (Download b k d) = True"
| "is_s3_event (Upload f b k) = True"
| "is_s3_event ev = False"

text \<open>
  The events each part of the script can add to the trace: the bootstrap block, the body
  of the \<open>try\<close> (where \<open>expected_cmd\<close> is the command the body builds from the
  hyperparameters file, if it gets that far) and the exception handler.
\<close>

fun boot_event :: "event \<Rightarrow> bool" where
  "boot_event S3Client = True"
| "boot_event (ReadFile p) = (p = ''s3keys.json'')"
| "boot_event (Mkdir p) = True"
| "boot_event (Download b k d) =
     (d \<in> set (map (\<lambda>name. ''/opt/ml/input/data/training/'' @ name)
                [''eval.tfrecords'', ''train.tfrecords'', ''validation.tfrecords'']))"
| "boot_event (System c) = True"
| "boot_event ev = False"

definition expected_cmd :: "env \<Rightarrow> pyval list option" where
  "expected_cmd env =
     (case load_json env param_path of
        Inl e \<Rightarrow> None
      | Inr hp \<Rightarrow>
          (case hyperparameters_to_cmd_args hp of
             Inl e \<Rightarrow> None
           | Inr args \<Rightarrow> Some (train_cmd (sys_executable env) args)))"

fun main_event :: "env \<Rightarrow> event \<Rightarrow> bool" where
  "main_event env (ReadFile p) = (p = param_path)"
| "main_event env (Spawn c) = (expected_cmd env = Some c)"
| "main_event env (Print t) = True"
| "main_event env (Upload f b k) = (f \<noteq> ''/opt/ml/model/eval'')"
| "main_event env ev = False"

fun handler_event :: "event \<Rightarrow> bool" where
  "handler_event (WriteFile p t) = (p = ''/opt/ml/output/failure'')"
| "handler_event (PrintErr t) = True"
| "handler_event ev = False"

definition script_event :: "env \<Rightarrow> event \<Rightarrow> bool" where
  "script_event env ev = (boot_event ev \<or> main_event env ev \<or> handler_event ev)"

text \<open>
  \<open>adds P f\<close>: whatever the state it starts in and however it ends, the step \<open>f\<close>
  keeps the trace it found and appends only events that satisfy \<open>P\<close>.
\<close>

definition adds :: "(event \<Rightarrow> bool) \<Rightarrow> step \<Rightarrow> bool" where
  "adds P f = (\<forall>s. \<exists>t. trace (snd (f s)) = trace s @ t \<and> list_all P t)"

subsection \<open>Specification functions\<close>

text \<open>The state right after \<open>print('Training complete.')\<close>, for a body started in \<open>s\<close>.\<close>

definition after_training :: "env \<Rightarrow> pyval list \<Rightarrow> pstate \<Rightarrow> pstate" where
  "after_training env args s =
     s\<lparr>trace := trace s @ [ReadFile param_path, Spawn (train_cmd (sys_executable env) args),
           Print ''Training complete.'']\<rparr>"

text \<open>
  The uploads the run owes to one entry of the model directory, in the words of the
  specification: nothing for \<open>eval\<close>; for \<open>export\<close>, the first \<open>.pb\<close> file under the
  first listed entry of \<open>export/Servo\<close>; the entry itself otherwise; always under the
  key \<open>cifar_results/\<close> followed by the base name.
\<close>

definition uploads_for :: "env \<Rightarrow> pyval \<Rightarrow> string \<Rightarrow> event list" where
  "uploads_for env bucket entry =
     (if entry = ''/opt/ml/model/eval'' then []
      else if entry = ''/opt/ml/model/export'' then
        (case listdir env ''/opt/ml/model/export/Servo'' of
           Inr (dir # rest) \<Rightarrow>
             (case glob env (''/opt/ml/model/export/Servo/'' @ dir @ ''/*.pb'') of
                f # fs \<Rightarrow> [Upload f bucket (''cifar_results/'' @ split_last f)]
              | [] \<Rightarrow> [])
         | _ \<Rightarrow> [])
      else [Upload entry bucket (''cifar_results/'' @ split_last entry)])"

text \<open>What \<open>json.load\<close> can return: any value without \<open>bytes\<close> in it.\<close>

fun json_value :: "pyval \<Rightarrow> bool" where
  "json_value (PBytes b) = False"
| "json_value (PList xs) = list_all json_value xs"
| "json_value (PDict kvs) = list_all (\<lambda>kv. json_value (snd kv)) kvs"
| "json_value v = True"

subsection \<open>Sample environments\<close>

text \<open>
  Concrete environments on which the theorems below are exercised. In
  \<open>managed_env\<close> the platform has mounted \<open>/opt/ml/input\<close>, the hyperparameters
  are \<open>{"train-steps": "1"}\<close>, the training process returns 0 and every other call
  succeeds; \<open>repr\<close> is a stand-in that prints the type of a value between angle
  brackets. \<open>ec2_env\<close> is the bare virtual machine: \<open>/opt/ml/input\<close> is missing,
  \<open>s3keys.json\<close> names bucket \<open>b\<close> and key prefix \<open>d\<close>, and after training the
  model directory holds \<open>.keep\<close>, \<open>eval\<close>, \<open>export\<close> (with \<open>Servo/7/m.pb\<close>)
  and \<open>ckpt\<close>. \<open>ec2_run\<close> is the trace of its run, \<open>ec2_boot_state\<close> the state after
  its bootstrap. The others change one answer each: \<open>s3keys.json\<close> is missing; the
  second download fails; the training process returns 1; the failure file cannot be
  written; a hyperparameter is the number 1; \<open>export/Servo\<close> is empty; the upload of
  one checkpoint fails.
\<close>

definition no_such_file :: "string \<Rightarrow> exn" where
  "no_such_file p = Exn ''FileNotFoundError'' (''[Errno 2] No such file or directory: '' @ p)"

definition managed_env :: env where
  "managed_env =
     \<lparr>isdir = (\<lambda>p. True),
      boto3_client = None,
      load_json = (\<lambda>p. if p = ''/opt/ml/input/config/hyperparameters.json''
                        then Inr (PDict [(''train-steps'', PStr ''1'')])
                        else Inl (no_such_file p)),
      mkdir = (\<lambda>p. None),
      download_file = (\<lambda>b k d. None),
      sys_executable = PStr ''/usr/bin/python'',
      spawn = (\<lambda>cmd. Inr (0, [])),
      listdir = (\<lambda>d. Inl (no_such_file d)),
      glob_dirs = (\<lambda>d. []),
      upload_file = (\<lambda>f b k. None),
      write_file = (\<lambda>p t. None),
      format_exc = (\<lambda>e. ''Traceback (most recent call last): '' @ exn_class e),
      py_repr = (\<lambda>v. ''<'' @ type_name v @ ''>'')\<rparr>"

definition ec2_env :: env where
  "ec2_env =
     managed_env
       \<lparr>isdir := (\<lambda>p. False),
        load_json := (\<lambda>p. if p = ''/opt/ml/input/config/hyperparameters.json''
                          then Inr (PDict [(''train-steps'', PStr ''1'')])
                          else if p = ''s3keys.json''
                          then Inr (PDict [(''bucket'', PStr ''b''), (''datakey'', PStr ''d'')])
                          else Inl (no_such_file p)),
        listdir := (\<lambda>d. if d = ''/opt/ml/model''
                         then Inr [''.keep'', ''eval'', ''export'', ''ckpt'']
                         else if d = ''/opt/ml/model/export/Servo'' then Inr [''7'']
                         else if d = ''/opt/ml/model/export/Servo/7''
                         then Inr [''variables'', ''m.pb'']
                         else Inl (no_such_file d))\<rparr>"

definition ec2_run :: "event list" where
  "ec2_run =
     [S3Client, ReadFile ''s3keys.json'', Mkdir ''/opt/ml/output'',
      Mkdir ''/opt/ml/input'', Mkdir ''/opt/ml/model'',
      Mkdir ''/opt/ml/input/config'', Mkdir ''/opt/ml/input/data'',
      Mkdir ''/opt/ml/input/data/training'',
      Download (PStr ''b'') ''d/eval.tfrecords''
        ''/opt/ml/input/data/training/eval.tfrecords'',
      Download (PStr ''b'') ''d/train.tfrecords''
        ''/opt/ml/input/data/training/train.tfrecords'',
      Download (PStr ''b'') ''d/validation.tfrecords''
        ''/opt/ml/input/data/training/validation.tfrecords'',
      System ''mv /opt/ml/code/hyperparameters.json /opt/ml/input/config'',
      ReadFile ''/opt/ml/input/config/hyperparameters.json'',
      Spawn [PStr ''/usr/bin/python'', PStr ''cifar10.py'', PStr ''--model-dir'',
        PStr ''/opt/ml/model'', PStr ''--train-steps'', PStr ''1''],
      Print ''Training complete.'',
      Print ''/opt/ml/model/eval'',
      Print ''/opt/ml/model/export'',
      Print ''<list>'',
      Upload ''/opt/ml/model/export/Servo/7/m.pb'' (PStr ''b'') ''cifar_results/m.pb'',
      Print ''/opt/ml/model/ckpt'',
      Upload ''/opt/ml/model/ckpt'' (PStr ''b'') ''cifar_results/ckpt'']"

definition ec2_boot_state :: pstate where
  "ec2_boot_state =
     \<lparr>ec2 = Some True, s3 = True,
      s3keys = Some (PDict [(''bucket'', PStr ''b''), (''datakey'', PStr ''d'')]),
      trace =
        [S3Client, ReadFile ''s3keys.json'', Mkdir ''/opt/ml/output'',
         Mkdir ''/opt/ml/input'', Mkdir ''/opt/ml/model'',
         Mkdir ''/opt/ml/input/config'', Mkdir ''/opt/ml/input/data'',
         Mkdir ''/opt/ml/input/data/training'',
         Download (PStr ''b'') ''d/eval.tfrecords''
           ''/opt/ml/input/data/training/eval.tfrecords'',
         Download (PStr ''b'') ''d/train.tfrecords''
           ''/opt/ml/input/data/training/train.tfrecords'',
         Download (PStr ''b'') ''d/validation.tfrecords''
           ''/opt/ml/input/data/training/validation.tfrecords'',
         System ''mv /opt/ml/code/hyperparameters.json /opt/ml/input/config'']\<rparr>"

definition demo_cmd :: "pyval \<Rightarrow> pyval list" where
  "demo_cmd steps =
     [PStr ''/usr/bin/python'', PStr ''cifar10.py'', PStr ''--model-dir'',
      PStr ''/opt/ml/model'', PStr ''--train-steps'', steps]"

definition no_keys_env :: env where
  "no_keys_env = ec2_env\<lparr>load_json := (\<lambda>p. Inl (no_such_file p))\<rparr>"

definition missing_object_env :: env where
  "missing_object_env =
     ec2_env\<lparr>download_file :=
       (\<lambda>b k d. if k = ''d/eval.tfrecords'' then None
                 else Some (Exn ''ClientError''
                   ''An error occurred (404) when calling the HeadObject operation: Not Found''))\<rparr>"

definition failing_train_env :: env where
  "failing_train_env = managed_env\<lparr>spawn := (\<lambda>cmd. Inr (1, ''out of memory''))\<rparr>"

definition readonly_env :: env where
  "readonly_env = failing_train_env\<lparr>write_file := (\<lambda>p t. Some (no_such_file p))\<rparr>"

definition int_param_env :: env where
  "int_param_env =
     managed_env\<lparr>load_json := (\<lambda>p. Inr (PDict [(''train-steps'', PInt 1)]))\<rparr>"

definition int_param_readonly_env :: env where
  "int_param_readonly_env = int_param_env\<lparr>write_file := (\<lambda>p t. Some (no_such_file p))\<rparr>"

definition empty_servo_env :: env where
  "empty_servo_env =
     ec2_env\<lparr>listdir := (\<lambda>d. if d = ''/opt/ml/model'' then Inr [''export'', ''ckpt'']
                             else if d = ''/opt/ml/model/export/Servo'' then Inr []
                             else Inl (no_such_file d))\<rparr>"

definition partial_upload_env :: env where
  "partial_upload_env =
     ec2_env\<lparr>listdir := (\<lambda>d. if d = ''/opt/ml/model''
                              then Inr [''.keep'', ''a.ckpt'', ''b.ckpt'', ''c.ckpt'']
                              else Inl (no_such_file d)),
             upload_file := (\<lambda>f b k. if f = ''/opt/ml/model/b.ckpt''
                              then Some (Exn ''S3UploadFailedError'' ''Failed to upload'')
                              else None)\<rparr>"

section \<open>Properties of the script\<close>

subsection \<open>What a step adds to the trace\<close>

lemma addsI: "(\<And>s. \<exists>t. trace (snd (f s)) = trace s @ t \<and> list_all P t) \<Longrightarrow> adds P f"
  by (simp add: adds_def)

lemma addsD: "adds P f \<Longrightarrow> \<exists>t. trace (snd (f s)) = trace s @ t \<and> list_all P t"
  by (simp add: adds_def)

lemma adds_mono: "adds P f \<Longrightarrow> (\<And>ev. P ev \<Longrightarrow> Q ev) \<Longrightarrow> adds Q f"
  unfolding adds_def list_all_iff by blast

lemma adds_skip: "adds P skip"
  by (simp add: adds_def skip_def)

lemma adds_raise: "adds P (raise e)"
  by (simp add: adds_def raise_def)

lemma adds_sys_exit: "adds P (sys_exit n)"
  by (simp add: adds_def sys_exit_def)

lemma adds_emit: "P ev \<Longrightarrow> adds P (emit ev)"
  by (simp add: adds_def emit_def)

lemma adds_call: "P ev \<Longrightarrow> adds P (call r ev)"
  by (cases r) (simp_all add: call_def adds_raise adds_emit)

lemma adds_seq:
  assumes f: "adds P f" and g: "adds P g"
  shows "adds P (seq f g)"
proof (rule addsI)
  fix s
  obtain c s' where fs: "f s = (c, s')" by (cases "f s")
  from addsD [OF f, of s] fs obtain t where t: "trace s' = trace s @ t" "list_all P t"
    by auto
  show "\<exists>t. trace (snd (seq f g s)) = trace s @ t \<and> list_all P t"
  proof (cases c)
    case Normal
    from addsD [OF g, of s'] obtain u where u: "trace (snd (g s')) = trace s' @ u" "list_all P u"
      by auto
    have "trace (snd (seq f g s)) = trace s @ (t @ u)"
      using fs Normal t u by (simp add: seq_def)
    moreover have "list_all P (t @ u)" using t u by simp
    ultimately show ?thesis by blast
  next
    case (Raised e)
    then show ?thesis using fs t by (auto simp: seq_def)
  next
    case (Exited n)
    then show ?thesis using fs t by (auto simp: seq_def)
  qed
qed

lemma adds_try_except:
  assumes f: "adds P body" and g: "\<And>e. adds P (h e)"
  shows "adds P (try_except body h)"
proof (rule addsI)
  fix s
  obtain c s' where fs: "body s = (c, s')" by (cases "body s")
  from addsD [OF f, of s] fs obtain t where t: "trace s' = trace s @ t" "list_all P t"
    by auto
  show "\<exists>t. trace (snd (try_except body h s)) = trace s @ t \<and> list_all P t"
  proof (cases c)
    case (Raised e)
    from addsD [OF g, of e s'] obtain u where u: "trace (snd (h e s')) = trace s' @ u" "list_all P u"
      by auto
    have "trace (snd (try_except body h s)) = trace s @ (t @ u)"
      using fs Raised t u by (simp add: try_except_def)
    moreover have "list_all P (t @ u)" using t u by simp
    ultimately show ?thesis by blast
  next
    case Normal
    then show ?thesis using fs t by (auto simp: try_except_def)
  next
    case (Exited n)
    then show ?thesis using fs t by (auto simp: try_except_def)
  qed
qed

lemma adds_bind_s3: "P S3Client \<Longrightarrow> adds P (bind_s3 env)"
  by (rule addsI) (simp add: bind_s3_def split: option.splits)

lemma adds_bind_s3keys: "P (ReadFile ''s3keys.json'') \<Longrightarrow> adds P (bind_s3keys env)"
  by (rule addsI) (simp add: bind_s3keys_def split: sum.splits)

lemma adds_do_mkdir: "P (Mkdir p) \<Longrightarrow> adds P (do_mkdir env p)"
  by (simp add: do_mkdir_def adds_call)

lemma adds_download:
  assumes "\<And>b k. P (Download b k (''/opt/ml/input/data/training/'' @ name))"
  shows "adds P (download env name)"
proof (rule addsI)
  fix s
  show "\<exists>t. trace (snd (download env name s)) = trace s @ t \<and> list_all P t"
    using assms addsD [OF adds_call, of P _ _ s]
    by (auto simp: download_def raise_def Let_def split: option.splits sum.splits)
qed

lemma adds_set_ec2: "adds P set_ec2"
  by (rule addsI) (simp add: set_ec2_def)

lemma adds_bootstrap: "adds boot_event (bootstrap env)"
  by (simp add: bootstrap_def adds_seq adds_skip adds_bind_s3 adds_bind_s3keys adds_do_mkdir
      adds_download adds_emit adds_set_ec2)

lemma adds_run: "P (Spawn cmd) \<Longrightarrow> adds P (run env cmd)"
  by (rule addsI)
    (auto simp: run_def raise_def seq_def emit_def skip_def split: sum.splits prod.splits)

lemma adds_upload: "(\<And>b. P (Upload filename b key)) \<Longrightarrow> adds P (upload env filename key)"
  by (rule addsI)
    (auto simp: upload_def raise_def call_def emit_def split: sum.splits option.splits)

subsection \<open>What \<open>glob\<close> returns\<close>

lemma split_last_pb: "split_last (d @ ''/*.pb'') = ''*.pb''"
  by (simp add: split_last_def)

lemma fnmatchcase_literal:
  "\<forall>c \<in> set p. c \<noteq> CHR ''*'' \<and> c \<noteq> CHR ''?'' \<Longrightarrow> fnmatchcase n p = (n = p)"
  by (induction n p rule: fnmatchcase.induct) auto

lemma fnmatchcase_star_pb: "fnmatchcase n ''*.pb'' \<Longrightarrow> n \<noteq> [] \<and> last n = CHR ''b''"
proof (induction n)
  case Nil
  then show ?case by simp
next
  case (Cons c cs)
  from Cons.prems have "fnmatchcase (c # cs) ''.pb'' \<or> fnmatchcase cs ''*.pb''"
    by simp
  then show ?case
  proof
    assume "fnmatchcase (c # cs) ''.pb''"
    moreover have "fnmatchcase (c # cs) ''.pb'' = (c # cs = ''.pb'')"
      by (rule fnmatchcase_literal) simp
    ultimately have "c # cs = ''.pb''" by simp
    then show ?thesis by simp
  next
    assume "fnmatchcase cs ''*.pb''"
    with Cons.IH show ?thesis by simp
  qed
qed

lemma last_os_path_join: "n \<noteq> [] \<Longrightarrow> last (os_path_join d n) = last n"
  by (simp add: os_path_join_def)

lemma glob_pb_last:
  assumes "f \<in> set (glob env (d @ ''/*.pb''))"
  shows "f \<noteq> [] \<and> last f = CHR ''b''"
proof -
  have sp: "snd (os_path_split (d @ ''/*.pb'')) = ''*.pb''"
    by (simp add: os_path_split_def Let_def split_last_pb)
  then obtain dn where dn: "os_path_split (d @ ''/*.pb'') = (dn, ''*.pb'')"
    by (cases "os_path_split (d @ ''/*.pb'')") simp
  from assms obtain dir n where n: "n \<in> set (glob1 env dir ''*.pb'')" and f: "f = os_path_join dir n"
    by (auto simp: glob_def dn)
  from n have "fnmatchcase n ''*.pb''" by (simp add: glob1_def Let_def)
  then have "n \<noteq> [] \<and> last n = CHR ''b''" by (rule fnmatchcase_star_pb)
  then show ?thesis using f by (auto simp: last_os_path_join os_path_join_def)
qed

lemma glob_model_absolute:
  assumes "f \<in> set (glob env ''/opt/ml/model/*'')"
  shows "os_path_join model_path f = f"
proof -
  have sp: "os_path_split ''/opt/ml/model/*'' = (''/opt/ml/model'', ''*'')"
    by (simp add: os_path_split_def Let_def split_last_def)
  from assms obtain n where "f = os_path_join ''/opt/ml/model'' n"
    by (auto simp: glob_def sp has_magic_def)
  then have "f \<noteq> [] \<and> hd f = CHR ''/''"
    by (auto simp: os_path_join_def)
  then show ?thesis by (simp add: os_path_join_def)
qed

subsection \<open>The upload block, the main body and the handler\<close>

lemma first_in_set: "first xs = Inr x \<Longrightarrow> x \<in> set xs"
  by (cases xs) auto

lemma adds_export_branch: "adds (main_event env) (export_branch env)"
proof (rule addsI)
  fix s
  show "\<exists>t. trace (snd (export_branch env s)) = trace s @ t \<and> list_all (main_event env) t"
  proof (cases "listdir env ''/opt/ml/model/export/Servo''")
    case (Inl e)
    then show ?thesis by (simp add: export_branch_def raise_def)
  next
    case (Inr names)
    show ?thesis
    proof (cases "first names")
      case (Inl e)
      then show ?thesis using Inr by (simp add: export_branch_def raise_def)
    next
      case dir: (Inr dir)
      define files where "files = glob env (''/opt/ml/model/export/Servo/'' @ dir @ ''/*.pb'')"
      define k where "k = (\<lambda>s. if \<not> s3 s then raise (name_error ''s3'') s
                          else case first files of
                            Inl e \<Rightarrow> raise e s
                          | Inr f \<Rightarrow> upload env f (''cifar_results/'' @ split_last f) s)"
      have eq: "export_branch env s = seq (emit (Print (py_str env (PList (map PStr files))))) k s"
        using Inr dir unfolding files_def k_def export_branch_def
        by (simp add: Let_def del: append.simps)
      have "adds (main_event env) k"
      proof (cases "first files")
        case (Inl e)
        then show ?thesis by (auto simp: k_def raise_def intro!: addsI)
      next
        case f: (Inr f)
        then have "f \<in> set files" by (rule first_in_set)
        then have "f \<in> set (glob env ((''/opt/ml/model/export/Servo/'' @ dir) @ ''/*.pb''))"
          by (simp add: files_def)
        then have "f \<noteq> [] \<and> last f = CHR ''b''" by (rule glob_pb_last)
        then have ne: "f \<noteq> ''/opt/ml/model/eval''" by auto
        have up: "adds (main_event env) (upload env f (''cifar_results/'' @ split_last f))"
          by (rule adds_upload) (simp add: ne)
        show ?thesis
        proof (rule addsI)
          fix s'
          show "\<exists>t. trace (snd (k s')) = trace s' @ t \<and> list_all (main_event env) t"
            using addsD [OF up, of s'] f by (simp add: k_def raise_def)
        qed
      qed
      then have "adds (main_event env) (seq (emit (Print (py_str env (PList (map PStr files))))) k)"
        by (intro adds_seq adds_emit) simp_all
      from addsD [OF this, of s] show ?thesis by (simp add: eq)
    qed
  qed
qed

lemma adds_upload_entry:
  assumes "os_path_join model_path file = file"
  shows "adds (main_event env) (upload_entry env file)"
  unfolding upload_entry_def
  by (intro adds_seq adds_emit) (auto simp: assms adds_export_branch adds_skip intro!: adds_upload)

lemma adds_upload_loop:
  "\<forall>file \<in> set files. os_path_join model_path file = file \<Longrightarrow>
     adds (main_event env) (upload_loop env files)"
  by (induction files) (simp_all add: adds_skip adds_seq adds_upload_entry)

lemma adds_upload_block: "adds (main_event env) (upload_block env)"
proof (rule addsI)
  fix s
  have "adds (main_event env) (upload_loop env (glob env ''/opt/ml/model/*''))"
    by (rule adds_upload_loop) (simp add: glob_model_absolute)
  from addsD [OF this, of s] show
    "\<exists>t. trace (snd (upload_block env s)) = trace s @ t \<and> list_all (main_event env) t"
    by (simp add: upload_block_def skip_def)
qed

lemma main_body_cases:
  "main_body env s =
     (case load_json env param_path of
        Inl e \<Rightarrow> (Raised e, s)
      | Inr hp \<Rightarrow>
          (case hyperparameters_to_cmd_args hp of
             Inl e \<Rightarrow> (Raised e, s\<lparr>trace := trace s @ [ReadFile param_path]\<rparr>)
           | Inr args \<Rightarrow>
               (case Popen env (train_cmd (sys_executable env) args) of
                  Inl e \<Rightarrow> (Raised e, s\<lparr>trace := trace s @ [ReadFile param_path]\<rparr>)
                | Inr (rc, err) \<Rightarrow>
                    if rc \<noteq> 0
                    then (Raised (Exn ''Exception''
                            (error_msg env rc (train_cmd (sys_executable env) args) err)),
                          s\<lparr>trace := trace s @ [ReadFile param_path,
                                Spawn (train_cmd (sys_executable env) args)]\<rparr>)
                    else (case upload_block env
                                 (s\<lparr>trace := trace s @ [ReadFile param_path,
                                      Spawn (train_cmd (sys_executable env) args),
                                      Print ''Training complete.'']\<rparr>) of
                            (Normal, s') \<Rightarrow> (Exited 0, s')
                          | r \<Rightarrow> r))))"
  by (simp add: main_body_def Let_def run_def seq_def emit_def raise_def skip_def sys_exit_def
      split: sum.splits prod.splits completion.splits)

lemma upload_not_exited: "fst (upload env f k s) \<noteq> Exited n"
  by (simp add: upload_def raise_def call_def emit_def split: sum.splits option.splits)

lemma export_branch_not_exited: "fst (export_branch env s) \<noteq> Exited n"
  using upload_not_exited
  by (simp add: export_branch_def raise_def seq_def emit_def Let_def
      split: sum.splits del: append.simps)

lemma upload_entry_not_exited: "fst (upload_entry env file s) \<noteq> Exited n"
  using upload_not_exited export_branch_not_exited
  by (simp add: upload_entry_def seq_def emit_def skip_def)

lemma upload_loop_not_exited: "fst (upload_loop env files s) \<noteq> Exited n"
proof (induction files arbitrary: s)
  case Nil
  then show ?case by (simp add: skip_def)
next
  case (Cons x xs)
  obtain c s' where e: "upload_entry env x s = (c, s')" by (cases "upload_entry env x s")
  with upload_entry_not_exited [of env x s n] have "c \<noteq> Exited n" by simp
  then show ?case using e Cons.IH [of s'] by (cases c) (simp_all add: seq_def)
qed

lemma upload_block_not_exited: "fst (upload_block env s) \<noteq> Exited n"
  by (simp add: upload_block_def skip_def upload_loop_not_exited)

lemma failure_path: "os_path_join output_path ''failure'' = ''/opt/ml/output/failure''"
  by (simp add: output_path_def prefix_def os_path_join_def)

lemma adds_handler: "adds handler_event (handler env e)"
  by (simp add: handler_def failure_path adds_seq adds_call adds_emit adds_sys_exit adds_skip)

lemma adds_main_body: "adds (main_event env) (main_body env)"
proof (rule addsI)
  fix s :: pstate
  let ?s1 = "s\<lparr>trace := trace s @ [ReadFile param_path]\<rparr>"
  show "\<exists>t. trace (snd (main_body env s)) = trace s @ t \<and> list_all (main_event env) t"
  proof (cases "load_json env param_path")
    case (Inl e)
    then show ?thesis by (simp add: main_body_def raise_def)
  next
    case hp: (Inr hp)
    show ?thesis
    proof (cases "hyperparameters_to_cmd_args hp")
      case (Inl e)
      then show ?thesis using hp by (simp add: main_body_def raise_def Let_def)
    next
      case args: (Inr args)
      let ?b = "block [run env (train_cmd (sys_executable env) args),
                   emit (Print ''Training complete.''), upload_block env, sys_exit 0]"
      have "adds (main_event env) ?b"
        using hp args
        by (simp add: adds_seq adds_run adds_emit adds_upload_block adds_sys_exit adds_skip
            expected_cmd_def)
      from addsD [OF this, of ?s1] obtain t where
        t: "trace (snd (?b ?s1)) = trace ?s1 @ t" "list_all (main_event env) t" by blast
      have "main_body env s = ?b ?s1" using hp args by (simp add: main_body_def Let_def)
      then have "trace (snd (main_body env s)) = trace s @ (ReadFile param_path # t)"
        using t(1) by simp
      then show ?thesis using t(2)
        by (intro exI [of _ "ReadFile param_path # t"]) simp
    qed
  qed
qed

lemma adds_script: "adds (script_event env) (script env)"
  unfolding script_def
  by (intro adds_seq adds_try_except adds_mono [OF adds_bootstrap]
      adds_mono [OF adds_main_body] adds_mono [OF adds_handler])
    (simp_all add: script_event_def)

lemma effects_events: "list_all (script_event env) (effects env)"
  using addsD [OF adds_script, of env init] by (simp add: effects_def train_def init_def)

subsection \<open>Evaluating the script on the sample environments\<close>

lemma param_path_eq: "param_path = ''/opt/ml/input/config/hyperparameters.json''"
  by (simp add: param_path_def prefix_def os_path_join_def)

lemma model_path_eq: "model_path = ''/opt/ml/model''"
  by (simp add: model_path_def prefix_def os_path_join_def)

lemma handler_cases:
  "handler env e s =
     (case write_file env ''/opt/ml/output/failure'' (failure_text env e) of
        Some e' \<Rightarrow> (Raised e', s)
      | None \<Rightarrow>
          (Exited 255,
           s\<lparr>trace := trace s @ [WriteFile ''/opt/ml/output/failure'' (failure_text env e),
                 PrintErr (failure_text env e)]\<rparr>))"
  by (simp add: handler_def failure_path call_def seq_def emit_def raise_def sys_exit_def
      skip_def split: option.splits)

lemmas eval_defs =
  train_def script_def bootstrap_def seq_def skip_def try_except_def
  main_body_cases handler_cases upload_block_def init_def param_path_eq
  Popen_def train_cmd_def training_script_def default_params_def model_path_eq
  bind_s3_def bind_s3keys_def do_mkdir_def call_def emit_def download_def py_str_def set_ec2_def
  glob_def glob1_def iterdir_def os_path_split_def split_last_def has_magic_def ishidden_def
  upload_entry_def upload_def export_branch_def os_path_join_def raise_def
  effects_def exit_status_def failure_text_def error_msg_def

lemma effects_managed_env:
  "effects managed_env =
     [ReadFile ''/opt/ml/input/config/hyperparameters.json'',
      Spawn [PStr ''/usr/bin/python'', PStr ''cifar10.py'', PStr ''--model-dir'',
        PStr ''/opt/ml/model'', PStr ''--train-steps'', PStr ''1''],
      Print ''Training complete.'']"
  by (simp add: eval_defs managed_env_def)

lemma exit_status_managed_env: "exit_status managed_env = 0"
  by (simp add: eval_defs managed_env_def)

lemma effects_ec2_env: "effects ec2_env = ec2_run"
  by (simp add: eval_defs managed_env_def ec2_env_def ec2_run_def)

lemma exit_status_ec2_env: "exit_status ec2_env = 0"
  by (simp add: eval_defs managed_env_def ec2_env_def)

lemma bootstrap_ec2_env: "bootstrap ec2_env init = (Normal, ec2_boot_state)"
  by (simp add: eval_defs managed_env_def ec2_env_def ec2_run_def ec2_boot_state_def)

section \<open>The claims\<close>

subsection \<open>The training command and the directory layout\<close>

lemma cmd_args_loop_acc:
  "cmd_args_loop items acc = acc @ concat (map (\<lambda>(key, value). [PStr (''--'' @ key), value]) items)"
  by (induction items arbitrary: acc) auto

lemma length_pairs:
  "length (concat (map (\<lambda>(key, value). [PStr (''--'' @ key), value]) items)) = 2 * length items"
  by (induction items) auto

lemma spawn_in_effects:
  "Spawn cmd \<in> set (effects env) \<Longrightarrow> expected_cmd env = Some cmd"
  using effects_events [of env] by (auto simp: list_all_iff script_event_def)

text \<open>
  Claim C3. For every hyperparameters object, \<open>_hyperparameters_to_cmd_args\<close> returns,
  for each item in iteration order, the two arguments \<open>--key\<close> and the unmodified
  value, so twice as many elements as the object has items; the command is
  \<open>sys.executable\<close>, \<open>cifar10.py\<close>, \<open>--model-dir\<close>, \<open>/opt/ml/model\<close> followed by
  them; and whenever a run starts a process, it starts it with exactly that command.
\<close>

theorem train_command:
  "hyperparameters_to_cmd_args (PDict items)
     = Inr (concat (map (\<lambda>(key, value). [PStr (''--'' @ key), value]) items))
   \<and> length (concat (map (\<lambda>(key, value). [PStr (''--'' @ key), value]) items))
       = 2 * length items
   \<and> train_cmd (sys_executable env) args
       = [sys_executable env, PStr ''cifar10.py'', PStr ''--model-dir'', PStr ''/opt/ml/model'']
           @ args
   \<and> (load_json env param_path = Inr (PDict items) \<and> Spawn cmd \<in> set (effects env) \<longrightarrow>
        cmd = [sys_executable env, PStr ''cifar10.py'', PStr ''--model-dir'',
               PStr ''/opt/ml/model'']
              @ concat (map (\<lambda>(key, value). [PStr (''--'' @ key), value]) items))"
proof -
  have a: "hyperparameters_to_cmd_args (PDict items)
     = Inr (concat (map (\<lambda>(key, value). [PStr (''--'' @ key), value]) items))"
    by (simp add: cmd_args_loop_acc)
  have c: "\<And>args. train_cmd (sys_executable env) args
       = [sys_executable env, PStr ''cifar10.py'', PStr ''--model-dir'', PStr ''/opt/ml/model'']
           @ args"
    by (simp add: train_cmd_def training_script_def default_params_def model_path_eq)
  have d: "cmd = [sys_executable env, PStr ''cifar10.py'', PStr ''--model-dir'',
               PStr ''/opt/ml/model'']
              @ concat (map (\<lambda>(key, value). [PStr (''--'' @ key), value]) items)"
    if "load_json env param_path = Inr (PDict items)" "Spawn cmd \<in> set (effects env)"
  proof -
    from that(2) have "expected_cmd env = Some cmd" by (rule spawn_in_effects)
    then show ?thesis using that(1) a c by (simp add: expected_cmd_def)
  qed
  show ?thesis using a length_pairs c d by blast
qed

theorem train_command_witness:
  "load_json managed_env param_path = Inr (PDict [(''train-steps'', PStr ''1'')])
   \<and> Spawn [PStr ''/usr/bin/python'', PStr ''cifar10.py'', PStr ''--model-dir'',
        PStr ''/opt/ml/model'', PStr ''--train-steps'', PStr ''1'']
       \<in> set (effects managed_env)
   \<and> hyperparameters_to_cmd_args (PDict [(''train-steps'', PStr ''1'')])
       = Inr [PStr ''--train-steps'', PStr ''1'']"
proof -
  have h: "load_json managed_env param_path = Inr (PDict [(''train-steps'', PStr ''1'')])"
    by (simp add: managed_env_def param_path_eq)
  have e: "Spawn [PStr ''/usr/bin/python'', PStr ''cifar10.py'', PStr ''--model-dir'',
        PStr ''/opt/ml/model'', PStr ''--train-steps'', PStr ''1'']
       \<in> set (effects managed_env)"
    by (simp add: effects_managed_env)
  from train_command [of "[(''train-steps'', PStr ''1'')]" managed_env "[]"
      "[PStr ''/usr/bin/python'', PStr ''cifar10.py'', PStr ''--model-dir'',
        PStr ''/opt/ml/model'', PStr ''--train-steps'', PStr ''1'']"]
  show ?thesis using h e by simp
qed


lemma readfile_in_effects:
  "ReadFile p \<in> set (effects env) \<Longrightarrow> p = ''s3keys.json'' \<or> p = param_path"
  using effects_events [of env] by (auto simp: list_all_iff script_event_def)

lemma download_in_effects:
  "Download b k d \<in> set (effects env) \<Longrightarrow>
     d \<in> set (map (\<lambda>name. ''/opt/ml/input/data/training/'' @ name)
                [''eval.tfrecords'', ''train.tfrecords'', ''validation.tfrecords''])"
  using effects_events [of env] by (auto simp: list_all_iff script_event_def)

text \<open>
  Claim C4. The path constants evaluate to the container contract's layout: the
  hyperparameters file, the channel \<open>training\<close> under \<open>/opt/ml/input/data\<close>, and
  \<open>/opt/ml/model\<close> as the \<open>--model-dir\<close> default. In every run, the only files read
  are \<open>s3keys.json\<close> and the hyperparameters file, the destination of every
  download is one of the three files \<open>eval.tfrecords\<close>, \<open>train.tfrecords\<close> and
  \<open>validation.tfrecords\<close> directly under the training channel's directory
  \<open>/opt/ml/input/data/training\<close>, and a started command was built from the
  hyperparameters file and carries \<open>--model-dir /opt/ml/model\<close>.
\<close>

theorem container_layout:
  "param_path = ''/opt/ml/input/config/hyperparameters.json''
   \<and> channel_name = ''training''
   \<and> training_path = ''/opt/ml/input/data/training''
   \<and> default_params = [PStr ''--model-dir'', PStr ''/opt/ml/model'']
   \<and> (\<forall>p. ReadFile p \<in> set (effects env) \<longrightarrow>
          p = ''s3keys.json'' \<or> p = ''/opt/ml/input/config/hyperparameters.json'')
   \<and> (\<forall>b k d. Download b k d \<in> set (effects env) \<longrightarrow>
          d \<in> set (map (\<lambda>name. ''/opt/ml/input/data/training/'' @ name)
                     [''eval.tfrecords'', ''train.tfrecords'', ''validation.tfrecords''])
          \<and> d \<in> set (map (os_path_join training_path)
                     [''eval.tfrecords'', ''train.tfrecords'', ''validation.tfrecords'']))
   \<and> (\<forall>cmd. Spawn cmd \<in> set (effects env) \<longrightarrow>
          (\<exists>hp args. load_json env ''/opt/ml/input/config/hyperparameters.json'' = Inr hp
             \<and> hyperparameters_to_cmd_args hp = Inr args
             \<and> cmd = [sys_executable env, PStr ''cifar10.py'', PStr ''--model-dir'',
                      PStr ''/opt/ml/model''] @ args))"
proof -
  have tp: "training_path = ''/opt/ml/input/data/training''"
    by (simp add: training_path_def input_path_def channel_name_def prefix_def os_path_join_def)
  have dp: "default_params = [PStr ''--model-dir'', PStr ''/opt/ml/model'']"
    by (simp add: default_params_def model_path_eq)
  have rd: "\<forall>p. ReadFile p \<in> set (effects env) \<longrightarrow>
          p = ''s3keys.json'' \<or> p = ''/opt/ml/input/config/hyperparameters.json''"
    using readfile_in_effects [of _ env] by (simp add: param_path_eq)
  have dl: "d \<in> set (map (\<lambda>name. ''/opt/ml/input/data/training/'' @ name)
                     [''eval.tfrecords'', ''train.tfrecords'', ''validation.tfrecords''])
          \<and> d \<in> set (map (os_path_join training_path)
                     [''eval.tfrecords'', ''train.tfrecords'', ''validation.tfrecords''])"
    if "Download b k d \<in> set (effects env)" for b k d
  proof -
    have j: "map (os_path_join training_path)
               [''eval.tfrecords'', ''train.tfrecords'', ''validation.tfrecords'']
             = map (\<lambda>name. ''/opt/ml/input/data/training/'' @ name)
                 [''eval.tfrecords'', ''train.tfrecords'', ''validation.tfrecords'']"
      unfolding tp by (simp add: os_path_join_def)
    from download_in_effects [OF that] show ?thesis
      unfolding j by simp
  qed
  have sp: "\<exists>hp args. load_json env ''/opt/ml/input/config/hyperparameters.json'' = Inr hp
             \<and> hyperparameters_to_cmd_args hp = Inr args
             \<and> cmd = [sys_executable env, PStr ''cifar10.py'', PStr ''--model-dir'',
                      PStr ''/opt/ml/model''] @ args"
    if "Spawn cmd \<in> set (effects env)" for cmd
  proof -
    from that have "expected_cmd env = Some cmd" by (rule spawn_in_effects)
    then show ?thesis
      by (auto simp: expected_cmd_def param_path_eq train_cmd_def dp training_script_def
          split: sum.splits)
  qed
  show ?thesis using tp dp rd dl sp by (simp add: param_path_eq channel_name_def)
qed

theorem container_layout_witness:
  "ReadFile ''/opt/ml/input/config/hyperparameters.json'' \<in> set (effects ec2_env)
   \<and> Download (PStr ''b'') ''d/train.tfrecords'' ''/opt/ml/input/data/training/train.tfrecords''
       \<in> set (effects ec2_env)
   \<and> ''/opt/ml/input/data/training/train.tfrecords''
       \<in> set (map (os_path_join training_path)
                [''eval.tfrecords'', ''train.tfrecords'', ''validation.tfrecords''])
   \<and> os_path_join training_path ''train.tfrecords''
       = ''/opt/ml/input/data/training/train.tfrecords''
   \<and> Spawn [PStr ''/usr/bin/python'', PStr ''cifar10.py'', PStr ''--model-dir'',
        PStr ''/opt/ml/model'', PStr ''--train-steps'', PStr ''1'']
       \<in> set (effects ec2_env)
   \<and> load_json ec2_env ''/opt/ml/input/config/hyperparameters.json''
       = Inr (PDict [(''train-steps'', PStr ''1'')])"
proof -
  have m: "ReadFile ''/opt/ml/input/config/hyperparameters.json'' \<in> set (effects ec2_env)"
    "Download (PStr ''b'') ''d/train.tfrecords'' ''/opt/ml/input/data/training/train.tfrecords''
       \<in> set (effects ec2_env)"
    "Spawn [PStr ''/usr/bin/python'', PStr ''cifar10.py'', PStr ''--model-dir'',
        PStr ''/opt/ml/model'', PStr ''--train-steps'', PStr ''1'']
       \<in> set (effects ec2_env)"
    by (simp_all add: effects_ec2_env ec2_run_def)
  have lj: "load_json ec2_env ''/opt/ml/input/config/hyperparameters.json''
       = Inr (PDict [(''train-steps'', PStr ''1'')])"
    by (simp add: ec2_env_def managed_env_def)
  from container_layout [of ec2_env]
  have tp: "training_path = ''/opt/ml/input/data/training''" by blast
  from container_layout [of ec2_env] m(2)
  have d: "''/opt/ml/input/data/training/train.tfrecords''
       \<in> set (map (os_path_join training_path)
                [''eval.tfrecords'', ''train.tfrecords'', ''validation.tfrecords''])"
    by blast
  have "os_path_join training_path ''train.tfrecords''
       = ''/opt/ml/input/data/training/train.tfrecords''"
    unfolding tp by (simp add: os_path_join_def)
  then show ?thesis using m lj d by simp
qed


subsection \<open>Exceptions in the bootstrap; the managed mode\<close>

lemma bootstrap_trace: "list_all boot_event (trace (snd (bootstrap env init)))"
  using addsD [OF adds_bootstrap, of env init] by (simp add: init_def)

lemma boot_event_not_write: "boot_event ev \<Longrightarrow> \<not> is_WriteFile ev"
  by (cases ev) simp_all

text \<open>
  Claim C8. The bootstrap block runs before the \<open>try\<close>: when it raises (which it can
  only do in the manual variant), the exception ends the run uncaught, with Python's
  exit status 1 and not 255, and the effects of the run are those of the bootstrap so
  far, none of them a write of the failure file.
\<close>

theorem bootstrap_exception_uncaught:
  assumes "fst (bootstrap env init) = Raised e"
  shows "\<not> isdir env ''/opt/ml/input''
    \<and> fst (train env) = Raised e
    \<and> exit_status env = 1
    \<and> exit_status env \<noteq> 255
    \<and> effects env = trace (snd (bootstrap env init))
    \<and> \<not> list_ex is_WriteFile (effects env)"
proof -
  obtain s where b: "bootstrap env init = (Raised e, s)"
    using assms by (cases "bootstrap env init") simp
  have nd: "\<not> isdir env ''/opt/ml/input''"
    using b by (auto simp: bootstrap_def skip_def)
  have t: "train env = (Raised e, s)"
    using b by (simp add: train_def script_def seq_def)
  have "list_all boot_event (trace s)"
    using bootstrap_trace [of env] b by simp
  then have "\<not> list_ex is_WriteFile (trace s)"
    by (auto simp: list_all_iff list_ex_iff boot_event_not_write)
  then show ?thesis using nd t b by (simp add: exit_status_def effects_def)
qed

theorem bootstrap_exception_uncaught_witness:
  "fst (bootstrap no_keys_env init) = Raised (no_such_file ''s3keys.json'')
   \<and> \<not> isdir no_keys_env ''/opt/ml/input''
   \<and> exit_status no_keys_env = 1
   \<and> effects no_keys_env = [S3Client]"
proof -
  have b: "bootstrap no_keys_env init
             = (Raised (no_such_file ''s3keys.json''), init\<lparr>s3 := True, trace := [S3Client]\<rparr>)"
    by (simp add: bootstrap_def no_keys_env_def ec2_env_def managed_env_def seq_def
        bind_s3_def bind_s3keys_def init_def)
  then have h: "fst (bootstrap no_keys_env init) = Raised (no_such_file ''s3keys.json'')"
    by simp
  from bootstrap_exception_uncaught [OF h] show ?thesis using h b by simp
qed

lemma managed_main_body:
  assumes "ec2 s \<noteq> Some True"
  shows "\<exists>t. snd (main_body env s) = s\<lparr>trace := trace s @ t\<rparr>
           \<and> list_all (\<lambda>ev. \<not> is_s3_event ev) t"
proof -
  have u: "\<And>t. upload_block env (s\<lparr>trace := t\<rparr>) = (Normal, s\<lparr>trace := t\<rparr>)"
    using assms by (simp add: upload_block_def skip_def)
  show ?thesis
  proof (cases "load_json env param_path")
    case (Inl e)
    then show ?thesis by (intro exI [of _ "[]"]) (simp add: main_body_cases)
  next
    case hp: (Inr hp)
    show ?thesis
    proof (cases "hyperparameters_to_cmd_args hp")
      case (Inl e)
      then show ?thesis using hp
        by (intro exI [of _ "[ReadFile param_path]"]) (simp add: main_body_cases)
    next
      case args: (Inr args)
      show ?thesis
      proof (cases "Popen env (train_cmd (sys_executable env) args)")
        case (Inl e)
        then show ?thesis using hp args
          by (intro exI [of _ "[ReadFile param_path]"]) (simp add: main_body_cases)
      next
        case (Inr r)
        obtain rc err where r: "r = (rc, err)" by (cases r)
        show ?thesis
        proof (cases "rc = 0")
          case True
          then show ?thesis using hp args Inr r u
            by (intro exI [of _ "[ReadFile param_path,
                  Spawn (train_cmd (sys_executable env) args), Print ''Training complete.'']"])
              (simp add: main_body_cases)
        next
          case False
          then show ?thesis using hp args Inr r
            by (intro exI [of _ "[ReadFile param_path,
                  Spawn (train_cmd (sys_executable env) args)]"])
              (simp add: main_body_cases)
        qed
      qed
    qed
  qed
qed

text \<open>
  Claim C10. When \<open>/opt/ml/input\<close> exists at startup, the bootstrap block is skipped
  and leaves the globals as they were (\<open>ec2\<close> is \<open>None\<close>, \<open>s3\<close> unbound); with
  \<open>ec2\<close> at \<open>None\<close> the upload block does nothing; the globals stay so to the end
  of the run, and the run constructs no S3 client, downloads nothing and uploads nothing.
\<close>

theorem managed_mode_no_s3:
  assumes "isdir env ''/opt/ml/input''"
  shows "bootstrap env init = (Normal, init)
    \<and> ec2 init = None
    \<and> (\<forall>s. ec2 s = None \<longrightarrow> upload_block env s = (Normal, s))
    \<and> ec2 (snd (train env)) = None
    \<and> \<not> s3 (snd (train env))
    \<and> \<not> list_ex is_s3_event (effects env)"
proof -
  have b: "bootstrap env init = (Normal, init)"
    using assms by (simp add: bootstrap_def skip_def)
  have sk: "\<forall>s. ec2 s = None \<longrightarrow> upload_block env s = (Normal, s)"
    by (simp add: upload_block_def skip_def)
  have "ec2 init \<noteq> Some True" by (simp add: init_def)
  from managed_main_body [OF this, of env] obtain t where
    t: "snd (main_body env init) = init\<lparr>trace := trace init @ t\<rparr>"
       "list_all (\<lambda>ev. \<not> is_s3_event ev) t" by blast
  obtain c where m: "main_body env init = (c, init\<lparr>trace := t\<rparr>)"
    using t(1) by (cases "main_body env init") (simp add: init_def)
  have "\<exists>u. snd (train env) = init\<lparr>trace := t @ u\<rparr> \<and> list_all (\<lambda>ev. \<not> is_s3_event ev) u"
  proof (cases c)
    case (Raised e)
    show ?thesis
    proof (cases "write_file env ''/opt/ml/output/failure'' (failure_text env e)")
      case None
      then show ?thesis using b m Raised
        by (intro exI [of _ "[WriteFile ''/opt/ml/output/failure'' (failure_text env e),
              PrintErr (failure_text env e)]"])
          (simp add: train_def script_def seq_def try_except_def handler_cases)
    next
      case (Some e')
      then show ?thesis using b m Raised
        by (intro exI [of _ "[]"])
          (simp add: train_def script_def seq_def try_except_def handler_cases)
    qed
  next
    case Normal
    then show ?thesis using b m
      by (intro exI [of _ "[]"]) (simp add: train_def script_def seq_def try_except_def)
  next
    case (Exited n)
    then show ?thesis using b m
      by (intro exI [of _ "[]"]) (simp add: train_def script_def seq_def try_except_def)
  qed
  then obtain u where u: "snd (train env) = init\<lparr>trace := t @ u\<rparr>"
    "list_all (\<lambda>ev. \<not> is_s3_event ev) u" by blast
  have "\<not> list_ex is_s3_event (t @ u)"
    using t(2) u(2) by (auto simp: list_all_iff list_ex_iff)
  then show ?thesis using b sk u(1) by (simp add: effects_def init_def)
qed

theorem managed_mode_no_s3_witness:
  "isdir managed_env ''/opt/ml/input''
   \<and> bootstrap managed_env init = (Normal, init)
   \<and> upload_block managed_env init = (Normal, init)
   \<and> ec2 (snd (train managed_env)) = None
   \<and> \<not> list_ex is_s3_event (effects managed_env)
   \<and> effects managed_env =
        [ReadFile ''/opt/ml/input/config/hyperparameters.json'',
         Spawn [PStr ''/usr/bin/python'', PStr ''cifar10.py'', PStr ''--model-dir'',
           PStr ''/opt/ml/model'', PStr ''--train-steps'', PStr ''1''],
         Print ''Training complete.'']"
proof -
  have h: "isdir managed_env ''/opt/ml/input''" by (simp add: managed_env_def)
  from managed_mode_no_s3 [OF h] show ?thesis using h effects_managed_env by simp
qed


subsection \<open>The exception handler\<close>

text \<open>
  Claim C1, as amended. In every run in which the main body raises an exception \<open>e\<close>
  and the failure file can be written, the script writes
  \<open>/opt/ml/output/failure\<close> with the content \<open>Exception during training: \<close>, then
  \<open>str(e)\<close>, a newline and the traceback, prints the same text to the standard error,
  and ends with exit status 255; nothing else happens after the exception.
\<close>

theorem failure_file_written:
  assumes "bootstrap env init = (Normal, s)"
    and "main_body env s = (Raised e, s')"
    and "write_file env ''/opt/ml/output/failure'' (failure_text env e) = None"
  shows "failure_text env e
           = ''Exception during training: '' @ str e @ [CHR 0x0A] @ format_exc env e
    \<and> effects env
           = trace s' @ [WriteFile ''/opt/ml/output/failure'' (failure_text env e),
                         PrintErr (failure_text env e)]
    \<and> exit_status env = 255"
  using assms
  by (simp add: failure_text_def effects_def exit_status_def train_def script_def seq_def
      try_except_def handler_cases)

theorem failure_file_written_witness:
  "bootstrap failing_train_env init = (Normal, init)
   \<and> fst (main_body failing_train_env init)
       = Raised (Exn ''Exception'' ''Return Code: <int>, CMD: <list>, Err: <bytes>'')
   \<and> write_file failing_train_env ''/opt/ml/output/failure''
         (failure_text failing_train_env
            (Exn ''Exception'' ''Return Code: <int>, CMD: <list>, Err: <bytes>'')) = None
   \<and> exit_status failing_train_env = 255
   \<and> last (effects failing_train_env)
       = PrintErr (''Exception during training: Return Code: <int>, CMD: <list>, Err: <bytes>''
           @ [CHR 0x0A] @ ''Traceback (most recent call last): Exception'')"
proof -
  let ?e = "Exn ''Exception'' ''Return Code: <int>, CMD: <list>, Err: <bytes>''"
  let ?s' = "init\<lparr>trace := [ReadFile param_path,
      Spawn [PStr ''/usr/bin/python'', PStr ''cifar10.py'', PStr ''--model-dir'',
        PStr ''/opt/ml/model'', PStr ''--train-steps'', PStr ''1'']]\<rparr>"
  have b: "bootstrap failing_train_env init = (Normal, init)"
    by (simp add: bootstrap_def skip_def failing_train_env_def managed_env_def)
  have m: "main_body failing_train_env init = (Raised ?e, ?s')"
    by (simp add: main_body_cases failing_train_env_def managed_env_def param_path_eq
        Popen_def train_cmd_def training_script_def default_params_def model_path_eq
        error_msg_def py_str_def init_def)
  have w: "write_file failing_train_env ''/opt/ml/output/failure''
         (failure_text failing_train_env ?e) = None"
    by (simp add: failing_train_env_def managed_env_def)
  have f: "format_exc failing_train_env ?e = ''Traceback (most recent call last): Exception''"
    by (simp add: failing_train_env_def managed_env_def)
  from failure_file_written [OF b m w] show ?thesis using b m w f by simp
qed

text \<open>
  The claim without the proviso fails: in a managed run whose training process returns
  1, with \<open>/opt/ml/output\<close> missing, \<open>_run\<close> raises, the handler's \<open>open\<close>
  raises in turn, no failure file is written and the run ends uncaught with exit
  status 1.
\<close>

theorem failure_file_not_written_counterexample:
  "bootstrap readonly_env init = (Normal, init)
   \<and> fst (main_body readonly_env init)
       = Raised (Exn ''Exception'' ''Return Code: <int>, CMD: <list>, Err: <bytes>'')
   \<and> \<not> list_ex is_WriteFile (effects readonly_env)
   \<and> exit_status readonly_env = 1"
  by (simp add: eval_defs readonly_env_def failing_train_env_def managed_env_def)


subsection \<open>\<open>_run\<close> and the successful run\<close>

lemma run_cases:
  "run env cmd s =
     (case Popen env cmd of
        Inl e \<Rightarrow> (Raised e, s)
      | Inr (rc, err) \<Rightarrow>
          if rc \<noteq> 0
          then (Raised (Exn ''Exception'' (error_msg env rc cmd err)),
                s\<lparr>trace := trace s @ [Spawn cmd]\<rparr>)
          else (Normal, s\<lparr>trace := trace s @ [Spawn cmd]\<rparr>))"
  by (simp add: run_def seq_def emit_def raise_def skip_def split: sum.splits prod.splits)

lemma train_after_bootstrap:
  "bootstrap env init = (Normal, s) \<Longrightarrow>
     train env = try_except (main_body env) (handler env) s"
  by (simp add: train_def script_def seq_def)

lemma print_kept:
  assumes "bootstrap env init = (Normal, s)"
    and "load_json env param_path = Inr hp"
    and "hyperparameters_to_cmd_args hp = Inr args"
    and "Popen env (train_cmd (sys_executable env) args) = Inr (0, err)"
  shows "Print ''Training complete.'' \<in> set (effects env)"
proof -
  let ?s2 = "after_training env args s"
  obtain c s3 where u: "upload_block env ?s2 = (c, s3)" by (cases "upload_block env ?s2")
  from addsD [OF adds_upload_block, of env ?s2] u obtain t where
    t: "trace s3 = trace ?s2 @ t" by auto
  have ne: "c \<noteq> Exited n" for n using upload_block_not_exited [of env ?s2 n] u by simp
  have m: "main_body env s = (case c of Normal \<Rightarrow> (Exited 0, s3) | _ \<Rightarrow> (c, s3))"
    using assms(2-4) u by (simp add: main_body_cases after_training_def split: completion.splits)
  show ?thesis
  proof (cases c)
    case Normal
    then show ?thesis using m t assms(1)
      by (simp add: effects_def train_after_bootstrap try_except_def after_training_def)
  next
    case (Raised e)
    obtain c' s4 where h: "handler env e s3 = (c', s4)" by (cases "handler env e s3")
    from addsD [OF adds_handler, of env e s3] h obtain t' where "trace s4 = trace s3 @ t'"
      by auto
    then show ?thesis using m t assms(1) Raised h
      by (simp add: effects_def train_after_bootstrap try_except_def after_training_def)
  next
    case (Exited n)
    then show ?thesis using ne by simp
  qed
qed

text \<open>
  Claim C2, as amended. \<open>_run\<close> raises what \<open>Popen\<close> raises when the process cannot be
  started; once the process has run, \<open>_run\<close> raises if and only if the return code is
  not zero, and returns normally on return code 0. In a run whose training process
  returns 0, the main program prints \<open>Training complete.\<close>; when moreover the upload
  block raises nothing (as it does when the \<open>ec2\<close> flag is unset, where it does
  nothing), the run writes no failure file and ends with exit status 0.
\<close>

theorem run_and_success_path:
  "(Popen env cmd = Inl e0 \<longrightarrow> run env cmd s = (Raised e0, s))
   \<and> (Popen env cmd = Inr (rc, err0) \<longrightarrow>
        ((\<exists>e. fst (run env cmd s) = Raised e) \<longleftrightarrow> rc \<noteq> 0)
        \<and> (rc = 0 \<longrightarrow> run env cmd s = (Normal, s\<lparr>trace := trace s @ [Spawn cmd]\<rparr>)))
   \<and> (bootstrap env init = (Normal, s0)
        \<and> load_json env param_path = Inr hp
        \<and> hyperparameters_to_cmd_args hp = Inr args
        \<and> Popen env (train_cmd (sys_executable env) args) = Inr (0, err) \<longrightarrow>
        Print ''Training complete.'' \<in> set (effects env)
        \<and> (ec2 s0 \<noteq> Some True \<longrightarrow>
              upload_block env (after_training env args s0) = (Normal, after_training env args s0))
        \<and> (fst (upload_block env (after_training env args s0)) = Normal \<longrightarrow>
              train env = (Exited 0, snd (upload_block env (after_training env args s0)))
              \<and> exit_status env = 0
              \<and> \<not> list_ex is_WriteFile (effects env)))"
proof -
  have a: "Popen env cmd = Inl e0 \<longrightarrow> run env cmd s = (Raised e0, s)"
    by (simp add: run_cases)
  have b: "Popen env cmd = Inr (rc, err0) \<longrightarrow>
        ((\<exists>e. fst (run env cmd s) = Raised e) \<longleftrightarrow> rc \<noteq> 0)
        \<and> (rc = 0 \<longrightarrow> run env cmd s = (Normal, s\<lparr>trace := trace s @ [Spawn cmd]\<rparr>))"
    by (simp add: run_cases)
  have c: "Print ''Training complete.'' \<in> set (effects env)
        \<and> (ec2 s0 \<noteq> Some True \<longrightarrow>
              upload_block env (after_training env args s0) = (Normal, after_training env args s0))
        \<and> (fst (upload_block env (after_training env args s0)) = Normal \<longrightarrow>
              train env = (Exited 0, snd (upload_block env (after_training env args s0)))
              \<and> exit_status env = 0
              \<and> \<not> list_ex is_WriteFile (effects env))"
    if h: "bootstrap env init = (Normal, s0)" "load_json env param_path = Inr hp"
      "hyperparameters_to_cmd_args hp = Inr args"
      "Popen env (train_cmd (sys_executable env) args) = Inr (0, err)"
  proof -
    let ?s2 = "after_training env args s0"
    have p: "Print ''Training complete.'' \<in> set (effects env)"
      using h by (rule print_kept)
    have sk: "ec2 s0 \<noteq> Some True \<longrightarrow> upload_block env ?s2 = (Normal, ?s2)"
      by (simp add: upload_block_def skip_def after_training_def)
    have ok: "train env = (Exited 0, snd (upload_block env ?s2))
              \<and> exit_status env = 0 \<and> \<not> list_ex is_WriteFile (effects env)"
      if n: "fst (upload_block env ?s2) = Normal"
    proof -
      obtain s3 where u: "upload_block env ?s2 = (Normal, s3)"
        using n by (cases "upload_block env ?s2") simp
      have t: "train env = (Exited 0, s3)"
        using h u
        by (simp add: train_after_bootstrap try_except_def main_body_cases after_training_def)
      have "\<not> list_ex is_WriteFile (trace s3)"
      proof -
        from addsD [OF adds_bootstrap, of env init] h(1)
        have "list_all boot_event (trace s0)" by (simp add: init_def)
        moreover from addsD [OF adds_upload_block, of env ?s2] u obtain t where
          "trace s3 = trace ?s2 @ t" "list_all (main_event env) t" by auto
        ultimately show ?thesis
          by (auto simp: after_training_def list_all_iff list_ex_iff elim!: is_WriteFile.elims)
      qed
      then show ?thesis using t u by (simp add: exit_status_def effects_def)
    qed
    show ?thesis using p sk ok by blast
  qed
  show ?thesis using a b c by blast
qed


theorem run_and_success_path_witness:
  "Popen ec2_env (demo_cmd (PStr ''1'')) = Inr (0, [])
   \<and> run ec2_env (demo_cmd (PStr ''1'')) init
       = (Normal, init\<lparr>trace := trace init @ [Spawn (demo_cmd (PStr ''1''))]\<rparr>)
   \<and> bootstrap ec2_env init = (Normal, ec2_boot_state)
   \<and> load_json ec2_env param_path = Inr (PDict [(''train-steps'', PStr ''1'')])
   \<and> fst (upload_block ec2_env
         (after_training ec2_env [PStr ''--train-steps'', PStr ''1''] ec2_boot_state)) = Normal
   \<and> Print ''Training complete.'' \<in> set (effects ec2_env)
   \<and> exit_status ec2_env = 0
   \<and> \<not> list_ex is_WriteFile (effects ec2_env)"
proof -
  let ?args = "[PStr ''--train-steps'', PStr ''1'']"
  have c: "train_cmd (sys_executable ec2_env) ?args = demo_cmd (PStr ''1'')"
    by (simp add: train_cmd_def training_script_def default_params_def model_path_eq
        demo_cmd_def ec2_env_def managed_env_def)
  have p: "Popen ec2_env (demo_cmd (PStr ''1'')) = Inr (0, [])"
    by (simp add: Popen_def demo_cmd_def ec2_env_def managed_env_def)
  have b: "bootstrap ec2_env init = (Normal, ec2_boot_state)" by (rule bootstrap_ec2_env)
  have l: "load_json ec2_env param_path = Inr (PDict [(''train-steps'', PStr ''1'')])"
    by (simp add: param_path_eq ec2_env_def managed_env_def)
  have a: "hyperparameters_to_cmd_args (PDict [(''train-steps'', PStr ''1'')]) = Inr ?args"
    by simp
  have u: "fst (upload_block ec2_env (after_training ec2_env ?args ec2_boot_state)) = Normal"
    by (simp add: eval_defs after_training_def ec2_boot_state_def ec2_env_def managed_env_def)
  from run_and_success_path [where env = ec2_env and cmd = "demo_cmd (PStr ''1'')"
      and s = init and rc = 0 and ?err0.0 = "[]" and ?s0.0 = ec2_boot_state
      and hp = "PDict [(''train-steps'', PStr ''1'')]" and args = ?args and err = "[]"]
  show ?thesis using p b l a u c by simp
qed

text \<open>
  The claim as first stated fails twice. With the hyperparameters
  \<open>{"train-steps": 1}\<close>, \<open>_run\<close> raises \<open>TypeError\<close> from \<open>Popen\<close> and
  starts no process, although the process would have returned 0. On the bare virtual
  machine with an empty \<open>export/Servo\<close>, the training process returns 0 and
  \<open>Training complete.\<close> is printed, but \<open>os.listdir(...)[0]\<close> raises
  \<open>IndexError\<close> inside the \<open>try\<close>: the failure file is written and the exit
  status is 255.
\<close>

theorem run_and_success_path_counterexample:
  "train_cmd (sys_executable int_param_env) (cmd_args_loop [(''train-steps'', PInt 1)] [])
     = demo_cmd (PInt 1)
   \<and> run int_param_env (demo_cmd (PInt 1)) init
     = (Raised (Exn ''TypeError'' ''expected str, bytes or os.PathLike object, not int''), init)
   \<and> spawn int_param_env (demo_cmd (PInt 1)) = Inr (0, [])
   \<and> Popen empty_servo_env (demo_cmd (PStr ''1'')) = Inr (0, [])
   \<and> Spawn (demo_cmd (PStr ''1'')) \<in> set (effects empty_servo_env)
   \<and> Print ''Training complete.'' \<in> set (effects empty_servo_env)
   \<and> WriteFile ''/opt/ml/output/failure''
        (''Exception during training: list index out of range'' @ [CHR 0x0A]
           @ ''Traceback (most recent call last): IndexError'')
       \<in> set (effects empty_servo_env)
   \<and> exit_status empty_servo_env = 255"
  by (simp add: eval_defs run_cases demo_cmd_def int_param_env_def empty_servo_env_def
      ec2_env_def managed_env_def)


subsection \<open>The effects of the bootstrap\<close>

lemma seq_Normal:
  "seq f g s = (Normal, s'') \<longleftrightarrow> (\<exists>s'. f s = (Normal, s') \<and> g s' = (Normal, s''))"
  by (cases "f s") (auto simp: seq_def split: completion.splits)

lemma bind_s3_Normal:
  "bind_s3 env s = (Normal, s') \<longleftrightarrow>
     boto3_client env = None \<and> s' = s\<lparr>s3 := True, trace := trace s @ [S3Client]\<rparr>"
  by (auto simp: bind_s3_def split: option.splits)

lemma bind_s3keys_Normal:
  "bind_s3keys env s = (Normal, s') \<longleftrightarrow>
     (\<exists>v. load_json env ''s3keys.json'' = Inr v
        \<and> s' = s\<lparr>s3keys := Some v, trace := trace s @ [ReadFile ''s3keys.json'']\<rparr>)"
  by (auto simp: bind_s3keys_def split: sum.splits)

lemma do_mkdir_Normal:
  "do_mkdir env p s = (Normal, s') \<longleftrightarrow>
     mkdir env p = None \<and> s' = s\<lparr>trace := trace s @ [Mkdir p]\<rparr>"
  by (auto simp: do_mkdir_def call_def emit_def raise_def split: option.splits)

lemma download_Normal:
  "download env name s = (Normal, s') \<longleftrightarrow>
     (\<exists>keys bucket datakey. s3 s \<and> s3keys s = Some keys
        \<and> subscript env keys ''bucket'' = Inr bucket
        \<and> subscript env keys ''datakey'' = Inr datakey
        \<and> download_file env bucket (py_str env datakey @ ''/'' @ name)
             (''/opt/ml/input/data/training/'' @ name) = None
        \<and> s' = s\<lparr>trace := trace s @ [Download bucket (py_str env datakey @ ''/'' @ name)
                       (''/opt/ml/input/data/training/'' @ name)]\<rparr>)"
  by (auto simp: download_def call_def emit_def raise_def Let_def
      split: option.splits sum.splits)

lemma emit_Normal: "emit ev s = (Normal, s') \<longleftrightarrow> s' = s\<lparr>trace := trace s @ [ev]\<rparr>"
  by (auto simp: emit_def)

lemma set_ec2_Normal: "set_ec2 s = (Normal, s') \<longleftrightarrow> s' = s\<lparr>ec2 := Some True\<rparr>"
  by (auto simp: set_ec2_def)

lemma skip_Normal: "skip s = (Normal, s') \<longleftrightarrow> s' = s"
  by (auto simp: skip_def)

text \<open>
  Claim C5, as amended. When \<open>/opt/ml/input\<close> does not exist at startup and no step of
  the bootstrap raises, the bootstrap has these effects, in this order, and no others:
  it makes the S3 client and reads \<open>s3keys.json\<close>; creates \<open>/opt/ml/output\<close>,
  \<open>/opt/ml/input\<close>, \<open>/opt/ml/model\<close>, \<open>/opt/ml/input/config\<close>,
  \<open>/opt/ml/input/data\<close> and \<open>/opt/ml/input/data/training\<close>; downloads
  \<open>eval.tfrecords\<close>, \<open>train.tfrecords\<close> and \<open>validation.tfrecords\<close> from the bucket
  and key prefix of \<open>s3keys.json\<close> into the training directory; and runs the shell
  command that moves \<open>/opt/ml/code/hyperparameters.json\<close> into
  \<open>/opt/ml/input/config\<close>. It leaves \<open>ec2\<close> set.
\<close>

theorem bootstrap_effects:
  assumes "\<not> isdir env ''/opt/ml/input''"
    and "bootstrap env init = (Normal, s)"
  shows "\<exists>keys bucket datakey.
      load_json env ''s3keys.json'' = Inr keys
      \<and> subscript env keys ''bucket'' = Inr bucket
      \<and> subscript env keys ''datakey'' = Inr datakey
      \<and> ec2 s = Some True
      \<and> trace s =
          [S3Client, ReadFile ''s3keys.json'',
           Mkdir ''/opt/ml/output'', Mkdir ''/opt/ml/input'', Mkdir ''/opt/ml/model'',
           Mkdir ''/opt/ml/input/config'', Mkdir ''/opt/ml/input/data'',
           Mkdir ''/opt/ml/input/data/training'',
           Download bucket (py_str env datakey @ ''/eval.tfrecords'')
             ''/opt/ml/input/data/training/eval.tfrecords'',
           Download bucket (py_str env datakey @ ''/train.tfrecords'')
             ''/opt/ml/input/data/training/train.tfrecords'',
           Download bucket (py_str env datakey @ ''/validation.tfrecords'')
             ''/opt/ml/input/data/training/validation.tfrecords'',
           System ''mv /opt/ml/code/hyperparameters.json /opt/ml/input/config'']"
  using assms
  by (auto simp: bootstrap_def seq_Normal bind_s3_Normal bind_s3keys_Normal do_mkdir_Normal
      download_Normal emit_Normal set_ec2_Normal skip_Normal init_def)

theorem bootstrap_effects_witness:
  "\<not> isdir ec2_env ''/opt/ml/input''
   \<and> bootstrap ec2_env init = (Normal, ec2_boot_state)
   \<and> load_json ec2_env ''s3keys.json''
       = Inr (PDict [(''bucket'', PStr ''b''), (''datakey'', PStr ''d'')])
   \<and> ec2 ec2_boot_state = Some True
   \<and> trace ec2_boot_state =
        [S3Client, ReadFile ''s3keys.json'',
         Mkdir ''/opt/ml/output'', Mkdir ''/opt/ml/input'', Mkdir ''/opt/ml/model'',
         Mkdir ''/opt/ml/input/config'', Mkdir ''/opt/ml/input/data'',
         Mkdir ''/opt/ml/input/data/training'',
         Download (PStr ''b'') ''d/eval.tfrecords''
           ''/opt/ml/input/data/training/eval.tfrecords'',
         Download (PStr ''b'') ''d/train.tfrecords''
           ''/opt/ml/input/data/training/train.tfrecords'',
         Download (PStr ''b'') ''d/validation.tfrecords''
           ''/opt/ml/input/data/training/validation.tfrecords'',
         System ''mv /opt/ml/code/hyperparameters.json /opt/ml/input/config'']"
proof -
  have h: "\<not> isdir ec2_env ''/opt/ml/input''" by (simp add: ec2_env_def managed_env_def)
  have l: "load_json ec2_env ''s3keys.json''
       = Inr (PDict [(''bucket'', PStr ''b''), (''datakey'', PStr ''d'')])"
    by (simp add: ec2_env_def managed_env_def)
  from bootstrap_effects [OF h bootstrap_ec2_env] show ?thesis
    using h l bootstrap_ec2_env by (auto simp: py_str_def)
qed

text \<open>
  The claim without the proviso fails: when \<open>train.tfrecords\<close> is not in the bucket,
  the second download raises; one file has been downloaded, nothing is moved, and the
  run ends uncaught with exit status 1.
\<close>

theorem bootstrap_effects_counterexample:
  "\<not> isdir missing_object_env ''/opt/ml/input''
   \<and> effects missing_object_env
       = [S3Client, ReadFile ''s3keys.json'',
          Mkdir ''/opt/ml/output'', Mkdir ''/opt/ml/input'', Mkdir ''/opt/ml/model'',
          Mkdir ''/opt/ml/input/config'', Mkdir ''/opt/ml/input/data'',
          Mkdir ''/opt/ml/input/data/training'',
          Download (PStr ''b'') ''d/eval.tfrecords''
            ''/opt/ml/input/data/training/eval.tfrecords'']
   \<and> exit_status missing_object_env = 1"
  by (simp add: eval_defs missing_object_env_def ec2_env_def managed_env_def)


subsection \<open>The uploads of the manual variant\<close>

lemma upload_Normal:
  "upload env f k s = (Normal, s') \<longleftrightarrow>
     s3 s \<and> (\<exists>keys b. s3keys s = Some keys \<and> subscript env keys ''bucket'' = Inr b
               \<and> upload_file env f b k = None
               \<and> s' = s\<lparr>trace := trace s @ [Upload f b k]\<rparr>)"
  by (auto simp: upload_def call_def emit_def raise_def split: option.splits sum.splits)

lemma first_Inr: "first xs = Inr x \<longleftrightarrow> (\<exists>ys. xs = x # ys)"
  by (cases xs) auto

lemma export_branch_Normal:
  assumes "export_branch env s = (Normal, s')"
    and "s3keys s = Some keys" and "subscript env keys ''bucket'' = Inr b"
  shows "\<exists>dir rest f fs.
      listdir env ''/opt/ml/model/export/Servo'' = Inr (dir # rest)
      \<and> glob env (''/opt/ml/model/export/Servo/'' @ dir @ ''/*.pb'') = f # fs
      \<and> s' = s\<lparr>trace := trace s @
            [Print (py_str env (PList (map PStr (f # fs)))),
             Upload f b (''cifar_results/'' @ split_last f)]\<rparr>"
proof -
  from assms(1) obtain names where n: "listdir env ''/opt/ml/model/export/Servo'' = Inr names"
    by (cases "listdir env ''/opt/ml/model/export/Servo''")
      (simp_all add: export_branch_def raise_def)
  from assms(1) n obtain dir rest where d: "names = dir # rest"
    by (cases names) (simp_all add: export_branch_def raise_def)
  define files where "files = glob env (''/opt/ml/model/export/Servo/'' @ dir @ ''/*.pb'')"
  define s1 where "s1 = s\<lparr>trace := trace s @ [Print (py_str env (PList (map PStr files)))]\<rparr>"
  have e: "export_branch env s =
      (if \<not> s3 s1 then raise (name_error ''s3'') s1
       else case first files of
              Inl e \<Rightarrow> raise e s1
            | Inr f \<Rightarrow> upload env f (''cifar_results/'' @ split_last f) s1)"
    using n d unfolding files_def s1_def export_branch_def
    by (simp add: Let_def seq_def emit_def del: append.simps)
  from assms(1) e obtain f where f: "first files = Inr f"
    and u: "upload env f (''cifar_results/'' @ split_last f) s1 = (Normal, s')"
    by (cases "first files") (auto simp: raise_def split: if_splits)
  from f obtain fs where fs: "files = f # fs" by (auto simp: first_Inr)
  from u assms(2,3) have "s' = s1\<lparr>trace := trace s1 @ [Upload f b (''cifar_results/'' @ split_last f)]\<rparr>"
    by (auto simp: upload_Normal s1_def)
  then have "s' = s\<lparr>trace := trace s @
            [Print (py_str env (PList (map PStr (f # fs)))),
             Upload f b (''cifar_results/'' @ split_last f)]\<rparr>"
    by (simp add: s1_def fs)
  then show ?thesis using n d fs unfolding files_def by blast
qed

lemma upload_entry_Normal:
  assumes "upload_entry env entry s = (Normal, s')"
    and "s3keys s = Some keys" and "subscript env keys ''bucket'' = Inr b"
    and "os_path_join model_path entry = entry"
  shows "\<exists>t. s' = s\<lparr>trace := trace s @ t\<rparr> \<and> filter is_Upload t = uploads_for env b entry"
proof -
  let ?s1 = "s\<lparr>trace := trace s @ [Print entry]\<rparr>"
  consider (eval) "entry = ''/opt/ml/model/eval''" | (export) "entry = ''/opt/ml/model/export''"
    | (other) "entry \<noteq> ''/opt/ml/model/eval''" "entry \<noteq> ''/opt/ml/model/export''"
    by blast
  then show ?thesis
  proof cases
    case eval
    then have "s' = ?s1" using assms(1)
      by (simp add: upload_entry_def seq_def emit_def skip_def)
    then show ?thesis using eval
      by (intro exI [of _ "[Print entry]"]) (simp add: uploads_for_def)
  next
    case export
    then have "export_branch env ?s1 = (Normal, s')" using assms(1)
      by (simp add: upload_entry_def seq_def emit_def)
    from export_branch_Normal [OF this, of keys b] assms(2,3)
    obtain dir rest f fs where
      x: "listdir env ''/opt/ml/model/export/Servo'' = Inr (dir # rest)"
         "glob env (''/opt/ml/model/export/Servo/'' @ dir @ ''/*.pb'') = f # fs"
         "s' = ?s1\<lparr>trace := trace ?s1 @
            [Print (py_str env (PList (map PStr (f # fs)))),
             Upload f b (''cifar_results/'' @ split_last f)]\<rparr>"
      by auto
    have u: "uploads_for env b entry = [Upload f b (''cifar_results/'' @ split_last f)]"
      unfolding uploads_for_def using export x(1,2) by (simp del: append.simps)
    show ?thesis using x(3) u
      by (intro exI [of _ "[Print entry, Print (py_str env (PList (map PStr (f # fs)))),
             Upload f b (''cifar_results/'' @ split_last f)]"]) simp
  next
    case other
    then have "upload env entry (''cifar_results/'' @ split_last entry) ?s1 = (Normal, s')"
      using assms(1,4) by (simp add: upload_entry_def seq_def emit_def)
    then have "s' = ?s1\<lparr>trace := trace ?s1 @
        [Upload entry b (''cifar_results/'' @ split_last entry)]\<rparr>"
      using assms(2,3) by (auto simp: upload_Normal)
    then show ?thesis using other
      by (intro exI [of _ "[Print entry,
            Upload entry b (''cifar_results/'' @ split_last entry)]"])
        (simp add: uploads_for_def)
  qed
qed

lemma upload_loop_Normal:
  assumes "upload_loop env entries s = (Normal, s')"
    and "s3keys s = Some keys" and "subscript env keys ''bucket'' = Inr b"
    and "\<forall>entry \<in> set entries. os_path_join model_path entry = entry"
  shows "\<exists>t. s' = s\<lparr>trace := trace s @ t\<rparr>
           \<and> filter is_Upload t = concat (map (uploads_for env b) entries)"
  using assms
proof (induction entries arbitrary: s)
  case Nil
  then show ?case by (intro exI [of _ "[]"]) (simp add: skip_def)
next
  case (Cons x xs)
  from Cons.prems(1) obtain s1 where
    a: "upload_entry env x s = (Normal, s1)" and b: "upload_loop env xs s1 = (Normal, s')"
    by (auto simp: seq_Normal)
  from upload_entry_Normal [OF a Cons.prems(2,3)] Cons.prems(4) obtain t where
    t: "s1 = s\<lparr>trace := trace s @ t\<rparr>" "filter is_Upload t = uploads_for env b x"
    by auto
  have "s3keys s1 = Some keys" using t(1) Cons.prems(2) by simp
  from Cons.IH [OF b this Cons.prems(3)] Cons.prems(4) obtain u where
    u: "s' = s1\<lparr>trace := trace s1 @ u\<rparr>"
       "filter is_Upload u = concat (map (uploads_for env b) xs)"
    by auto
  show ?case using t u by (intro exI [of _ "t @ u"]) simp
qed


lemma seq_not_exited:
  assumes f: "\<And>s. fst (f s) \<noteq> Exited n" and g: "\<And>s. fst (g s) \<noteq> Exited n"
  shows "fst (seq f g s) \<noteq> Exited n"
proof -
  obtain c s' where e: "f s = (c, s')" by (cases "f s")
  with f [of s] have "c \<noteq> Exited n" by simp
  then show ?thesis using e g [of s'] by (cases c) (simp_all add: seq_def)
qed

lemma bootstrap_not_exited: "fst (bootstrap env s) \<noteq> Exited n"
proof -
  have d: "fst (download env name s) \<noteq> Exited n" for name s
    by (simp add: download_def raise_def call_def emit_def Let_def
        split: option.splits sum.splits)
  have m: "fst (do_mkdir env p s) \<noteq> Exited n" for p s
    by (simp add: do_mkdir_def raise_def call_def emit_def split: option.splits)
  have a: "fst (bind_s3 env s) \<noteq> Exited n" for s
    by (simp add: bind_s3_def split: option.splits)
  have b: "fst (bind_s3keys env s) \<noteq> Exited n" for s
    by (simp add: bind_s3keys_def split: sum.splits)
  have e: "fst (emit ev s) \<noteq> Exited n" for ev s by (simp add: emit_def)
  have c: "fst (set_ec2 s) \<noteq> Exited n" for s by (simp add: set_ec2_def)
  have k: "fst (skip s) \<noteq> Exited n" for s by (simp add: skip_def)
  show ?thesis
    by (simp add: bootstrap_def seq_not_exited d m a b e c k)
qed

lemma handler_status: "status_of (fst (handler env e s)) \<noteq> 0"
  by (simp add: handler_cases split: option.splits)

lemma main_body_result:
  assumes "main_body env s = (c, s')"
  shows "c \<noteq> Normal
    \<and> (\<forall>n. c = Exited n \<longrightarrow>
          n = 0 \<and> (\<exists>hp args err.
            load_json env param_path = Inr hp
            \<and> hyperparameters_to_cmd_args hp = Inr args
            \<and> Popen env (train_cmd (sys_executable env) args) = Inr (0, err)
            \<and> upload_block env (after_training env args s) = (Normal, s')))"
proof (cases "load_json env param_path")
  case (Inl e)
  then show ?thesis using assms by (auto simp: main_body_cases)
next
  case hp: (Inr hp)
  show ?thesis
  proof (cases "hyperparameters_to_cmd_args hp")
    case (Inl e)
    then show ?thesis using assms hp by (auto simp: main_body_cases)
  next
    case args: (Inr args)
    show ?thesis
    proof (cases "Popen env (train_cmd (sys_executable env) args)")
      case (Inl e)
      then show ?thesis using assms hp args by (auto simp: main_body_cases)
    next
      case (Inr r)
      obtain rc err where r: "r = (rc, err)" by (cases r)
      show ?thesis
      proof (cases "rc = 0")
        case False
        then show ?thesis using assms hp args Inr r by (auto simp: main_body_cases)
      next
        case True
        obtain cu su where u: "upload_block env (after_training env args s) = (cu, su)"
          by (cases "upload_block env (after_training env args s)")
        have ne: "cu \<noteq> Exited n" for n
          using upload_block_not_exited [of env "after_training env args s" n] u by simp
        have m: "main_body env s = (case cu of Normal \<Rightarrow> (Exited 0, su) | _ \<Rightarrow> (cu, su))"
          using hp args Inr r True u
          by (simp add: main_body_cases after_training_def split: completion.splits)
        show ?thesis
        proof (cases cu)
          case Normal
          then show ?thesis using assms m hp args Inr r True u by auto
        next
          case (Raised e)
          then show ?thesis using assms m by auto
        next
          case (Exited k)
          then show ?thesis using ne by simp
        qed
      qed
    qed
  qed
qed

lemma exit_status_zero:
  assumes "exit_status env = 0"
  shows "\<exists>s0 hp args err s3.
      bootstrap env init = (Normal, s0)
      \<and> load_json env param_path = Inr hp
      \<and> hyperparameters_to_cmd_args hp = Inr args
      \<and> Popen env (train_cmd (sys_executable env) args) = Inr (0, err)
      \<and> upload_block env (after_training env args s0) = (Normal, s3)
      \<and> train env = (Exited 0, s3)"
proof -
  obtain c s0 where b: "bootstrap env init = (c, s0)" by (cases "bootstrap env init")
  have c: "c = Normal"
  proof (cases c)
    case (Raised e)
    then show ?thesis using assms b by (simp add: exit_status_def train_def script_def seq_def)
  next
    case (Exited n)
    then show ?thesis using bootstrap_not_exited [of env init n] b by simp
  qed simp
  then have t: "train env = try_except (main_body env) (handler env) s0"
    using b by (simp add: train_after_bootstrap)
  obtain c' s3 where m: "main_body env s0 = (c', s3)" by (cases "main_body env s0")
  note r = main_body_result [OF m]
  have c': "c' = Exited 0"
  proof (cases c')
    case Normal
    then show ?thesis using r by simp
  next
    case (Raised e)
    then show ?thesis using assms t m handler_status [of env e s3]
      by (simp add: exit_status_def try_except_def)
  next
    case (Exited n)
    then show ?thesis using r by simp
  qed
  then have "train env = (Exited 0, s3)" using t m by (simp add: try_except_def)
  then show ?thesis using b c r c' by auto
qed


lemma bootstrap_Normal:
  assumes "\<not> isdir env ''/opt/ml/input''"
    and "bootstrap env init = (Normal, s)"
  shows "\<exists>keys bucket.
      load_json env ''s3keys.json'' = Inr keys
      \<and> subscript env keys ''bucket'' = Inr bucket
      \<and> ec2 s = Some True \<and> s3 s \<and> s3keys s = Some keys
      \<and> \<not> list_ex is_Upload (trace s)"
  using assms
  by (auto simp: bootstrap_def seq_Normal bind_s3_Normal bind_s3keys_Normal do_mkdir_Normal
      download_Normal emit_Normal set_ec2_Normal skip_Normal init_def)

lemma fnmatchcase_star: "fnmatchcase n ''*''"
  by (induction n) simp_all

lemma glob_model:
  "glob env ''/opt/ml/model/*''
     = map (os_path_join ''/opt/ml/model'')
         (filter (\<lambda>n. \<not> ishidden n) (iterdir env ''/opt/ml/model''))"
proof -
  have sp: "os_path_split ''/opt/ml/model/*'' = (''/opt/ml/model'', ''*'')"
    by (simp add: os_path_split_def Let_def split_last_def)
  have h: "\<not> ishidden ''*''" by (simp add: ishidden_def)
  show ?thesis
    by (simp add: glob_def sp has_magic_def glob1_def Let_def h fnmatchcase_star)
qed

lemma eval_not_uploaded: "Upload ''/opt/ml/model/eval'' b k \<notin> set (effects env)"
  using effects_events [of env] by (auto simp: list_all_iff script_event_def)

text \<open>
  Claim C6, as amended. In the manual variant, when the run ends with exit status 0 (the
  training process returned 0 and no call of the upload block raised), the uploads of
  the run are exactly these, in the order in which \<open>glob\<close> lists \<open>/opt/ml/model\<close>,
  all to the bucket of \<open>s3keys.json\<close>: each listed entry other than \<open>eval\<close> and
  \<open>export\<close> under \<open>cifar_results/\<close> plus its base name, and for \<open>export\<close> the first
  \<open>.pb\<close> file found under the first listed entry of \<open>export/Servo\<close>, under
  \<open>cifar_results/\<close> plus its base name. \<open>glob\<close> lists the entries whose names do not
  start with a dot. In every run, whatever its end, \<open>/opt/ml/model/eval\<close> is not
  uploaded.
\<close>

theorem model_upload:
  "(\<not> isdir env ''/opt/ml/input'' \<and> exit_status env = 0 \<longrightarrow>
      (\<exists>keys bucket.
         load_json env ''s3keys.json'' = Inr keys
         \<and> subscript env keys ''bucket'' = Inr bucket
         \<and> filter is_Upload (effects env)
             = concat (map (uploads_for env bucket) (glob env ''/opt/ml/model/*''))))
   \<and> glob env ''/opt/ml/model/*''
       = map (os_path_join ''/opt/ml/model'')
           (filter (\<lambda>n. \<not> ishidden n) (iterdir env ''/opt/ml/model''))
   \<and> (\<forall>b k. Upload ''/opt/ml/model/eval'' b k \<notin> set (effects env))"
proof -
  have a: "\<exists>keys bucket.
         load_json env ''s3keys.json'' = Inr keys
         \<and> subscript env keys ''bucket'' = Inr bucket
         \<and> filter is_Upload (effects env)
             = concat (map (uploads_for env bucket) (glob env ''/opt/ml/model/*''))"
    if nd: "\<not> isdir env ''/opt/ml/input''" and ex: "exit_status env = 0"
  proof -
    from exit_status_zero [OF ex] obtain s0 args s3 where
      b: "bootstrap env init = (Normal, s0)"
      and u: "upload_block env (after_training env args s0) = (Normal, s3)"
      and t: "train env = (Exited 0, s3)" by blast
    from bootstrap_Normal [OF nd b] obtain keys bucket where
      k: "load_json env ''s3keys.json'' = Inr keys"
         "subscript env keys ''bucket'' = Inr bucket"
         "ec2 s0 = Some True" "s3keys s0 = Some keys"
         "\<not> list_ex is_Upload (trace s0)" by blast
    let ?s2 = "after_training env args s0"
    have l: "upload_loop env (glob env ''/opt/ml/model/*'') ?s2 = (Normal, s3)"
      using u k(3) by (simp add: upload_block_def after_training_def)
    have "s3keys ?s2 = Some keys" using k(4) by (simp add: after_training_def)
    from upload_loop_Normal [OF l this k(2)] obtain tr where
      tr: "s3 = ?s2\<lparr>trace := trace ?s2 @ tr\<rparr>"
          "filter is_Upload tr = concat (map (uploads_for env bucket) (glob env ''/opt/ml/model/*''))"
      using glob_model_absolute [of _ env] by blast
    have "filter is_Upload (trace s0) = []"
      using k(5) by (simp add: list_ex_iff filter_empty_conv)
    then have "filter is_Upload (effects env)
        = concat (map (uploads_for env bucket) (glob env ''/opt/ml/model/*''))"
      using t tr by (simp add: effects_def after_training_def)
    then show ?thesis using k(1,2) by blast
  qed
  show ?thesis using a glob_model [of env] eval_not_uploaded [of _ _ env] by blast
qed

theorem model_upload_witness:
  "\<not> isdir ec2_env ''/opt/ml/input''
   \<and> exit_status ec2_env = 0
   \<and> iterdir ec2_env ''/opt/ml/model'' = [''.keep'', ''eval'', ''export'', ''ckpt'']
   \<and> glob ec2_env ''/opt/ml/model/*''
       = [''/opt/ml/model/eval'', ''/opt/ml/model/export'', ''/opt/ml/model/ckpt'']
   \<and> filter is_Upload (effects ec2_env)
       = [Upload ''/opt/ml/model/export/Servo/7/m.pb'' (PStr ''b'') ''cifar_results/m.pb'',
          Upload ''/opt/ml/model/ckpt'' (PStr ''b'') ''cifar_results/ckpt'']"
proof -
  have h: "\<not> isdir ec2_env ''/opt/ml/input''" by (simp add: ec2_env_def managed_env_def)
  have i: "iterdir ec2_env ''/opt/ml/model'' = [''.keep'', ''eval'', ''export'', ''ckpt'']"
    by (simp add: iterdir_def ec2_env_def managed_env_def)
  have f: "filter is_Upload (effects ec2_env)
       = [Upload ''/opt/ml/model/export/Servo/7/m.pb'' (PStr ''b'') ''cifar_results/m.pb'',
          Upload ''/opt/ml/model/ckpt'' (PStr ''b'') ''cifar_results/ckpt'']"
    by (simp add: effects_ec2_env ec2_run_def)
  from model_upload [of ec2_env] show ?thesis
    using h exit_status_ec2_env i f by (simp add: ishidden_def os_path_join_def)
qed

text \<open>
  The claim as first stated fails: the model directory holds \<open>.keep\<close>,
  \<open>a.ckpt\<close>, \<open>b.ckpt\<close> and \<open>c.ckpt\<close> after a successful training, and the
  upload of \<open>b.ckpt\<close> raises. \<open>glob\<close> never lists \<open>.keep\<close>, the loop ends at
  \<open>b.ckpt\<close>, and only \<open>a.ckpt\<close> is uploaded; the exit status is 255.
\<close>

theorem model_upload_counterexample:
  "\<not> isdir partial_upload_env ''/opt/ml/input''
   \<and> Print ''Training complete.'' \<in> set (effects partial_upload_env)
   \<and> listdir partial_upload_env ''/opt/ml/model''
       = Inr [''.keep'', ''a.ckpt'', ''b.ckpt'', ''c.ckpt'']
   \<and> filter is_Upload (effects partial_upload_env)
       = [Upload ''/opt/ml/model/a.ckpt'' (PStr ''b'') ''cifar_results/a.ckpt'']
   \<and> exit_status partial_upload_env = 255"
  by (simp add: eval_defs partial_upload_env_def ec2_env_def managed_env_def)


subsection \<open>Hyperparameters that are not strings\<close>

lemma first_bad_arg_None: "first_bad_arg vs = None \<longleftrightarrow> (\<forall>v \<in> set vs. bad_arg v = None)"
  by (induction vs) (auto split: option.splits)

lemma bad_arg_json: "json_value v \<Longrightarrow> bad_arg v = None \<Longrightarrow> is_str v"
  by (cases v) simp_all

lemma values_in_cmd:
  "(key, value) \<in> set items \<Longrightarrow> value \<in> set (train_cmd exe (cmd_args_loop items []))"
  by (force simp: train_cmd_def cmd_args_loop_acc)

lemma Popen_Inr_args:
  assumes "Popen env (train_cmd exe (cmd_args_loop items [])) = Inr r"
    and "json_value (PDict items)" and "(key, value) \<in> set items"
  shows "is_str value"
proof -
  from assms(1) have "first_bad_arg (train_cmd exe (cmd_args_loop items [])) = None"
    by (auto simp: Popen_def split: if_splits option.splits)
  then have "bad_arg value = None"
    using values_in_cmd [OF assms(3)] by (simp add: first_bad_arg_None)
  moreover have "json_value value" using assms(2,3) by (auto simp: list_all_iff)
  ultimately show ?thesis by (rule bad_arg_json [rotated])
qed

text \<open>
  Claim C9, as amended. Let the hyperparameters file hold a JSON object. A run can end
  with exit status 0 only when every value of the object is a string. When some value
  is not a string, \<open>Popen\<close> raises before any process is started, the main body raises
  that exception right after reading the file, and the run does not end with exit status
  0; when moreover the failure file can be written, the handler writes it and the run
  ends with exit status 255.
\<close>

theorem non_string_hyperparameter:
  "(exit_status env = 0 \<and> load_json env param_path = Inr (PDict items)
      \<and> json_value (PDict items) \<longrightarrow> list_all (\<lambda>kv. is_str (snd kv)) items)
   \<and> (bootstrap env init = (Normal, s)
       \<and> load_json env param_path = Inr (PDict items) \<and> json_value (PDict items)
       \<and> (k, v) \<in> set items \<and> \<not> is_str v \<longrightarrow>
       (\<exists>e. Popen env (train_cmd (sys_executable env) (cmd_args_loop items [])) = Inl e
          \<and> main_body env s = (Raised e, s\<lparr>trace := trace s @ [ReadFile param_path]\<rparr>)
          \<and> exit_status env \<noteq> 0
          \<and> (write_file env ''/opt/ml/output/failure'' (failure_text env e) = None \<longrightarrow>
                effects env
                  = trace s @ [ReadFile param_path,
                      WriteFile ''/opt/ml/output/failure'' (failure_text env e),
                      PrintErr (failure_text env e)]
                \<and> exit_status env = 255)))"
proof -
  have a: "list_all (\<lambda>kv. is_str (snd kv)) items"
    if ex: "exit_status env = 0" and l: "load_json env param_path = Inr (PDict items)"
      and j: "json_value (PDict items)"
  proof -
    from exit_status_zero [OF ex] l obtain err where
      "Popen env (train_cmd (sys_executable env) (cmd_args_loop items [])) = Inr (0, err)"
      by auto
    from Popen_Inr_args [OF this j] show ?thesis
      by (auto simp: list_all_iff)
  qed
  have b: "\<exists>e. Popen env (train_cmd (sys_executable env) (cmd_args_loop items [])) = Inl e
          \<and> main_body env s = (Raised e, s\<lparr>trace := trace s @ [ReadFile param_path]\<rparr>)
          \<and> exit_status env \<noteq> 0
          \<and> (write_file env ''/opt/ml/output/failure'' (failure_text env e) = None \<longrightarrow>
                effects env
                  = trace s @ [ReadFile param_path,
                      WriteFile ''/opt/ml/output/failure'' (failure_text env e),
                      PrintErr (failure_text env e)]
                \<and> exit_status env = 255)"
    if bt: "bootstrap env init = (Normal, s)"
      and l: "load_json env param_path = Inr (PDict items)" and j: "json_value (PDict items)"
      and kv: "(k, v) \<in> set items" and ns: "\<not> is_str v"
  proof -
    let ?cmd = "train_cmd (sys_executable env) (cmd_args_loop items [])"
    obtain e where p: "Popen env ?cmd = Inl e"
      using Popen_Inr_args [OF _ j kv] ns by (cases "Popen env ?cmd") auto
    have m: "main_body env s = (Raised e, s\<lparr>trace := trace s @ [ReadFile param_path]\<rparr>)"
      using l p by (simp add: main_body_cases)
    have t: "train env = handler env e (s\<lparr>trace := trace s @ [ReadFile param_path]\<rparr>)"
      using bt m by (simp add: train_after_bootstrap try_except_def)
    have nz: "exit_status env \<noteq> 0"
      using t handler_status [of env e] by (simp add: exit_status_def)
    have w: "write_file env ''/opt/ml/output/failure'' (failure_text env e) = None \<longrightarrow>
                effects env
                  = trace s @ [ReadFile param_path,
                      WriteFile ''/opt/ml/output/failure'' (failure_text env e),
                      PrintErr (failure_text env e)]
                \<and> exit_status env = 255"
      using t by (simp add: effects_def exit_status_def handler_cases)
    from p m nz w show ?thesis by (intro exI [of _ e] conjI)
  qed
  show ?thesis using a b by blast
qed

theorem non_string_hyperparameter_witness:
  "bootstrap int_param_env init = (Normal, init)
   \<and> load_json int_param_env param_path = Inr (PDict [(''train-steps'', PInt 1)])
   \<and> json_value (PDict [(''train-steps'', PInt 1)])
   \<and> \<not> is_str (PInt 1)
   \<and> write_file int_param_env ''/opt/ml/output/failure''
        (failure_text int_param_env
           (Exn ''TypeError'' ''expected str, bytes or os.PathLike object, not int'')) = None
   \<and> exit_status int_param_env = 255
   \<and> exit_status managed_env = 0
   \<and> load_json managed_env param_path = Inr (PDict [(''train-steps'', PStr ''1'')])
   \<and> list_all (\<lambda>kv. is_str (snd kv)) [(''train-steps'', PStr ''1'')]"
proof -
  let ?items = "[(''train-steps'', PInt 1)]"
  have b: "bootstrap int_param_env init = (Normal, init)"
    by (simp add: bootstrap_def skip_def int_param_env_def managed_env_def)
  have l: "load_json int_param_env param_path = Inr (PDict ?items)"
    by (simp add: int_param_env_def managed_env_def)
  have p: "Popen int_param_env (train_cmd (sys_executable int_param_env)
             (cmd_args_loop ?items []))
           = Inl (Exn ''TypeError'' ''expected str, bytes or os.PathLike object, not int'')"
    by (simp add: Popen_def train_cmd_def training_script_def default_params_def model_path_eq
        int_param_env_def managed_env_def)
  have w: "write_file int_param_env ''/opt/ml/output/failure'' t = None" for t
    by (simp add: int_param_env_def managed_env_def)
  have l': "load_json managed_env param_path = Inr (PDict [(''train-steps'', PStr ''1'')])"
    by (simp add: managed_env_def param_path_eq)
  from non_string_hyperparameter [where env = int_param_env and items = ?items and s = init
      and k = "''train-steps''" and v = "PInt 1"]
    non_string_hyperparameter [where env = managed_env
      and items = "[(''train-steps'', PStr ''1'')]"]
  show ?thesis using b l p w l' exit_status_managed_env by auto
qed

text \<open>
  The claim without the proviso fails: with the hyperparameters
  \<open>{"train-steps": 1}\<close> and \<open>/opt/ml/output\<close> missing, \<open>Popen\<close> raises
  \<open>TypeError\<close>, the handler's \<open>open\<close> raises in turn, no failure file is
  written and the exit status is 1.
\<close>

theorem non_string_hyperparameter_counterexample:
  "bootstrap int_param_readonly_env init = (Normal, init)
   \<and> load_json int_param_readonly_env param_path = Inr (PDict [(''train-steps'', PInt 1)])
   \<and> fst (main_body int_param_readonly_env init)
       = Raised (Exn ''TypeError'' ''expected str, bytes or os.PathLike object, not int'')
   \<and> \<not> list_ex is_WriteFile (effects int_param_readonly_env)
   \<and> exit_status int_param_readonly_env = 1"
  by (simp add: eval_defs int_param_readonly_env_def int_param_env_def managed_env_def)


subsection \<open>The order of the notebook's calls\<close>

lemma notebook_calls:
  "\<exists>st. run_all = Inr st \<and>
     calls st =
       [ShellCell ''cat container/Dockerfile'',
        ShellCell ''%%sh: aws ecr describe-repositories, create-repository, get-login; docker build, tag, push'',
        ShellCell ''python utils/generate_cifar10_tfrecords.py --data-dir=/tmp/cifar-10-data'',
        ShellCell ''ls /tmp/cifar-10-data'',
        GetExecutionRole,
        ShellCell ''/bin/bash ./utils/setup.sh'',
        Fit ''local'' (VStr ''file:///tmp/cifar-10-data''),
        ShellCell ''pip install opencv-python'',
        DefaultBucket,
        UploadData,
        GetCallerIdentity,
        Fit ''ml.p3.8xlarge'' VUploaded,
        Deploy ''ml.g4dn.2xlarge'' ''tf-byoc-end'',
        Predict ''tf-byoc-end'',
        DeleteEndpoint ''tf-byoc-end'']"
  by (simp add: run_all_def notebook_def fresh_def reading_def bind_var_def called_def)

text \<open>
  Claim C7. Run from top to bottom, the notebook raises no error of its own and makes
  the calls listed first. Among them, the calls that act on the managed platform's
  training data, training jobs and endpoints are, in this order: the upload of the
  training data, the training job on the uploaded data, the deployment of the endpoint,
  the prediction against that endpoint and the deletion of that endpoint. No endpoint
  is deleted before a prediction was made against it. (The earlier \<open>fit\<close> has
  instance type \<open>local\<close>; the shell cells and the look-ups of the role, the default
  bucket and the account are not among the five operations the claim orders.)
\<close>

theorem notebook_call_order:
  "\<exists>st. run_all = Inr st
     \<and> calls st =
       [ShellCell ''cat container/Dockerfile'',
        ShellCell ''%%sh: aws ecr describe-repositories, create-repository, get-login; docker build, tag, push'',
        ShellCell ''python utils/generate_cifar10_tfrecords.py --data-dir=/tmp/cifar-10-data'',
        ShellCell ''ls /tmp/cifar-10-data'',
        GetExecutionRole,
        ShellCell ''/bin/bash ./utils/setup.sh'',
        Fit ''local'' (VStr ''file:///tmp/cifar-10-data''),
        ShellCell ''pip install opencv-python'',
        DefaultBucket,
        UploadData,
        GetCallerIdentity,
        Fit ''ml.p3.8xlarge'' VUploaded,
        Deploy ''ml.g4dn.2xlarge'' ''tf-byoc-end'',
        Predict ''tf-byoc-end'',
        DeleteEndpoint ''tf-byoc-end'']
     \<and> filter platform_call (calls st)
         = [UploadData,
            Fit ''ml.p3.8xlarge'' VUploaded,
            Deploy ''ml.g4dn.2xlarge'' ''tf-byoc-end'',
            Predict ''tf-byoc-end'',
            DeleteEndpoint ''tf-byoc-end'']
     \<and> predicted_before_delete (calls st) []"
proof -
  from notebook_calls obtain st where st: "run_all = Inr st"
    and c: "calls st =
       [ShellCell ''cat container/Dockerfile'',
        ShellCell ''%%sh: aws ecr describe-repositories, create-repository, get-login; docker build, tag, push'',
        ShellCell ''python utils/generate_cifar10_tfrecords.py --data-dir=/tmp/cifar-10-data'',
        ShellCell ''ls /tmp/cifar-10-data'',
        GetExecutionRole,
        ShellCell ''/bin/bash ./utils/setup.sh'',
        Fit ''local'' (VStr ''file:///tmp/cifar-10-data''),
        ShellCell ''pip install opencv-python'',
        DefaultBucket,
        UploadData,
        GetCallerIdentity,
        Fit ''ml.p3.8xlarge'' VUploaded,
        Deploy ''ml.g4dn.2xlarge'' ''tf-byoc-end'',
        Predict ''tf-byoc-end'',
        DeleteEndpoint ''tf-byoc-end'']" by blast
  have f: "filter platform_call (calls st)
         = [UploadData,
            Fit ''ml.p3.8xlarge'' VUploaded,
            Deploy ''ml.g4dn.2xlarge'' ''tf-byoc-end'',
            Predict ''tf-byoc-end'',
            DeleteEndpoint ''tf-byoc-end'']"
    unfolding c by simp
  have p: "predicted_before_delete (calls st) []"
    unfolding c by simp
  from st c f p show ?thesis by blast
qed

end
